theory Spec2Isabelle
  imports Main
begin

section \<open>Library values the service relies on\<close>

subsection \<open>strconv: decimal rendering and parsing of Go ints\<close>

text \<open>
  Go's \<open>int\<close> is taken as the 64-bit type of the linux build. The program does no
  arithmetic on ints: it only renders them (\<open>strconv.Itoa\<close>, the verb \<open>%d\<close>) and parses
  them (\<open>strconv.Atoi\<close>), so an int is an Isabelle \<open>int\<close> and the only place where the
  width shows, the clamping of \<open>Atoi\<close> on overflow, is written out.
\<close>

definition digit_char :: "nat \<Rightarrow> char" where
  "digit_char d = ''0123456789'' ! (d mod 10)"

fun itoa_nat :: "nat \<Rightarrow> string" where
  "itoa_nat n = (if n < 10 then [digit_char n] else itoa_nat (n div 10) @ [digit_char (n mod 10)])"

declare itoa_nat.simps [simp del]

definition Itoa :: "int \<Rightarrow> string" where
  "Itoa i = (if i < 0 then CHR ''-'' # itoa_nat (nat (- i)) else itoa_nat (nat i))"

datatype num_err = ErrSyntax | ErrRange

text \<open>
  Go errors. \<open>redis_Nil\<close> is the sentinel the cache client returns for an absent key (the
  handler compares against it); \<open>NumError\<close> is what \<open>strconv\<close> returns (function, input,
  cause); every other error (network, serializer) is opaque and carries its message.
\<close>

datatype error = redis_Nil | NumError string string num_err | Err string

definition digit_val :: "char \<Rightarrow> int option" where
  "digit_val c =
     (let k = (of_char c :: int) in if 48 \<le> k \<and> k \<le> 57 then Some (k - 48) else None)"

definition maxUint64 :: int where
  "maxUint64 = 2 ^ 64 - 1"

text \<open>
  The digit loop of \<open>strconv.ParseUint\<close> in base 10 at 64 bits: a byte that is no digit is
  a syntax error (value 0), an overflow stops the loop with the largest value.
\<close>

fun parse_digits :: "int \<Rightarrow> string \<Rightarrow> int \<times> num_err option" where
  "parse_digits n [] = (n, None)"
| "parse_digits n (c # cs) =
     (case digit_val c of
        None \<Rightarrow> (0, Some ErrSyntax)
      | Some d \<Rightarrow>
          if n \<ge> maxUint64 div 10 + 1 then (maxUint64, Some ErrRange)
          else if n * 10 + d > maxUint64 then (maxUint64, Some ErrRange)
          else parse_digits (n * 10 + d) cs)"

definition Atoi :: "string \<Rightarrow> int \<times> error option" where
  "Atoi s =
     (let neg = (s \<noteq> [] \<and> hd s = CHR ''-'');
          ds = (if s \<noteq> [] \<and> (hd s = CHR ''+'' \<or> hd s = CHR ''-'') then tl s else s)
      in if ds = [] then (0, Some (NumError ''Atoi'' s ErrSyntax))
         else (case parse_digits 0 ds of
                 (un, Some ErrSyntax) \<Rightarrow> (0, Some (NumError ''Atoi'' s ErrSyntax))
               | (un, r) \<Rightarrow>
                   if \<not> neg \<and> un \<ge> 2 ^ 63 then (2 ^ 63 - 1, Some (NumError ''Atoi'' s ErrRange))
                   else if neg \<and> un > 2 ^ 63 then (- (2 ^ 63), Some (NumError ''Atoi'' s ErrRange))
                   else (if neg then - un else un, None)))"

subsection \<open>time: the calendar date of \<open>time.Now()\<close>\<close>

datatype Month = January | February | March | April | May | June
  | July | August | September | October | November | December

fun Month_String :: "Month \<Rightarrow> string" where
  "Month_String January = ''January''"
| "Month_String February = ''February''"
| "Month_String March = ''March''"
| "Month_String April = ''April''"
| "Month_String May = ''May''"
| "Month_String June = ''June''"
| "Month_String July = ''July''"
| "Month_String August = ''August''"
| "Month_String September = ''September''"
| "Month_String October = ''October''"
| "Month_String November = ''November''"
| "Month_String December = ''December''"

fun Month_int :: "Month \<Rightarrow> int" where
  "Month_int January = 1"
| "Month_int February = 2"
| "Month_int March = 3"
| "Month_int April = 4"
| "Month_int May = 5"
| "Month_int June = 6"
| "Month_int July = 7"
| "Month_int August = 8"
| "Month_int September = 9"
| "Month_int October = 10"
| "Month_int November = 11"
| "Month_int December = 12"

record Time =
  Year :: int
  Month :: Month
  Day :: int

subsection \<open>fmt: the fragment of \<open>Sprintf\<close> the program uses\<close>

text \<open>
  Operands are the four types the program formats: string, int, \<open>time.Month\<close> (an int
  with a \<open>String\<close> method) and \<open>[]string\<close>. The verbs are \<open>%s\<close>, \<open>%d\<close> and \<open>%v\<close>, without
  flags or widths; \<open>%%\<close> is a percent sign. A verb an operand does not take, a verb with no
  operand left and operands left over are rendered the way fmt reports them. Other verbs
  do not occur in the program and are treated as verbs the operand does not take.
\<close>

datatype operand = OpStr string | OpInt int | OpMonth Month | OpStrs "string list"

fun join :: "string \<Rightarrow> string list \<Rightarrow> string" where
  "join sep [] = []"
| "join sep [x] = x"
| "join sep (x # y # ys) = x @ sep @ join sep (y # ys)"

definition badVerb :: "char \<Rightarrow> string \<Rightarrow> string \<Rightarrow> string" where
  "badVerb v ty val = ''%!'' @ [v] @ ''('' @ ty @ ''='' @ val @ '')''"

definition printString :: "char \<Rightarrow> string \<Rightarrow> string" where
  "printString v s = (if v = CHR ''s'' \<or> v = CHR ''v'' then s else badVerb v ''string'' s)"

fun printArg :: "char \<Rightarrow> operand \<Rightarrow> string" where
  "printArg v (OpStr s) = printString v s"
| "printArg v (OpInt i) =
     (if v = CHR ''d'' \<or> v = CHR ''v'' then Itoa i else badVerb v ''int'' (Itoa i))"
| "printArg v (OpMonth m) =
     (if v = CHR ''s'' \<or> v = CHR ''v'' then Month_String m
      else if v = CHR ''d'' then Itoa (Month_int m)
      else badVerb v ''time.Month'' (Itoa (Month_int m)))"
| "printArg v (OpStrs xs) = ''['' @ join '' '' (map (printString v) xs) @ '']''"

fun extraArg :: "operand \<Rightarrow> string" where
  "extraArg (OpStr s) = ''string='' @ s"
| "extraArg (OpInt i) = ''int='' @ Itoa i"
| "extraArg (OpMonth m) = ''time.Month='' @ Month_String m"
| "extraArg (OpStrs xs) = ''[]string='' @ printArg (CHR ''v'') (OpStrs xs)"

fun Sprintf :: "string \<Rightarrow> operand list \<Rightarrow> string" where
  "Sprintf [] [] = []"
| "Sprintf [] (a # as) = ''%!(EXTRA '' @ join '', '' (map extraArg (a # as)) @ '')''"
| "Sprintf [c] args =
     (if c = CHR ''%'' then ''%!(NOVERB)'' @ Sprintf [] args else c # Sprintf [] args)"
| "Sprintf (c # v # rest) args =
     (if c \<noteq> CHR ''%'' then c # Sprintf (v # rest) args
      else if v = CHR ''%'' then CHR ''%'' # Sprintf rest args
      else (case args of
              [] \<Rightarrow> ''%!'' @ [v] @ ''(MISSING)'' @ Sprintf rest []
            | a # as \<Rightarrow> printArg v a @ Sprintf rest as))"

section \<open>Configuration\<close>

record Config =
  HTTPPort :: string
  RedisAddr :: string
  RedisDB :: int
  RedisPassword :: string
  RedisPrefix :: string
  WUndergroundKey :: string
  WUndergroundLocation :: string

text \<open>The cache key of \<open>handleSunPhase\<close>, computed from the prefix and the local date.\<close>

definition cacheKey :: "Config \<Rightarrow> Time \<Rightarrow> string" where
  "cacheKey config today =
     Sprintf ''%sweather:sun_phase:%d-%s-%d''
       [OpStr (RedisPrefix config), OpInt (Year today), OpMonth (Month today), OpInt (Day today)]"


section \<open>Data of the service\<close>

record Env =
  config :: Config

record SunPhaseRespose =
  ResponseID :: string
  SunriseM :: int
  SunriseH :: int
  SunsetM :: int
  SunsetH :: int

record WUTime =
  Hour :: string
  Minute :: string

record WUSunPhase =
  Sunrise :: WUTime
  Sunset :: WUTime

record WUAstronomy =
  Response :: string
  MoonPhase :: string
  SunPhase :: WUSunPhase

text \<open>The zero value of \<open>WUAstronomy\<close>, which a named result starts from.\<close>

definition zero_WUAstronomy :: WUAstronomy where
  "zero_WUAstronomy =
     \<lparr>Response = [], MoonPhase = [],
      SunPhase = \<lparr>Sunrise = \<lparr>Hour = [], Minute = []\<rparr>, Sunset = \<lparr>Hour = [], Minute = []\<rparr>\<rparr>\<rparr>"

text \<open>
  \<open>jsonapi.ErrorObject\<close>, with the four fields the program sets. Each of them is tagged
  \<open>omitempty\<close>: the serialized document has the member exactly when the field is not
  empty, which \<open>members\<close> records.
\<close>

record ErrorObject =
  Title :: string
  Detail :: string
  Status :: string
  Code :: string



section \<open>The world outside the process\<close>

text \<open>
  Functions of libraries whose code is not part of the repository are parameters:
  the decoding of a well-formed JSON document into the target (it returns the target as
  it leaves it and its error), the error reported for a document that is not well-formed,
  the two serializers of jsonapi and \<open>strconv.Quote\<close>.
\<close>

record Lib =
  json_decode :: "string \<Rightarrow> WUAstronomy \<Rightarrow> WUAstronomy \<times> error option"
  json_SyntaxError :: "string \<Rightarrow> error"
  jsonapi_MarshalPayload :: "SunPhaseRespose \<Rightarrow> error + string"
  jsonapi_MarshalErrors :: "ErrorObject list \<Rightarrow> string"
  strconv_Quote :: "string \<Rightarrow> string"

subsection \<open>encoding/json: well-formed documents\<close>

text \<open>
  \<open>json.Unmarshal\<close> first runs the scanner of the package over the whole input and
  returns its error, leaving the target untouched, when the input is not one well-formed
  JSON value; only then does it decode. The scanner is a state machine over the bytes
  with a stack of the open objects and arrays; the states and the steps below are those
  of the package (the four states of a unicode escape and the states of the literals are
  kept as they are there; the limit on the nesting depth is left out).
\<close>

datatype parseState = parseObjectKey | parseObjectValue | parseArrayValue

datatype scanState =
    stateBeginValue | stateBeginValueOrEmpty | stateBeginStringOrEmpty | stateBeginString
  | stateEndValue | stateEndTop
  | stateInString | stateInStringEsc
  | stateInStringEscU | stateInStringEscU1 | stateInStringEscU12 | stateInStringEscU123
  | stateNeg | state1 | state0 | stateDot | stateDot0 | stateE | stateESign | stateE0
  | stateT | stateTr | stateTru | stateF | stateFa | stateFal | stateFals
  | stateN | stateNu | stateNul

definition isSpace :: "char \<Rightarrow> bool" where
  "isSpace c = (c = CHR '' '' \<or> c = CHR 0x09 \<or> c = CHR 0x0D \<or> c = CHR 0x0A)"

definition isDigit :: "char \<Rightarrow> bool" where
  "isDigit c = (let k = (of_char c :: nat) in 48 \<le> k \<and> k \<le> 57)"

definition isHex :: "char \<Rightarrow> bool" where
  "isHex c =
     (let k = (of_char c :: nat)
      in (48 \<le> k \<and> k \<le> 57) \<or> (97 \<le> k \<and> k \<le> 102) \<or> (65 \<le> k \<and> k \<le> 70))"

definition popParseState :: "parseState list \<Rightarrow> (scanState \<times> parseState list) option" where
  "popParseState stack =
     (if tl stack = [] then Some (stateEndTop, []) else Some (stateEndValue, tl stack))"

fun endValue :: "parseState list \<Rightarrow> char \<Rightarrow> (scanState \<times> parseState list) option" where
  "endValue [] c = (if isSpace c then Some (stateEndTop, []) else None)"
| "endValue (p # ps) c =
     (if isSpace c then Some (stateEndValue, p # ps)
      else (case p of
              parseObjectKey \<Rightarrow>
                if c = CHR '':'' then Some (stateBeginValue, parseObjectValue # ps) else None
            | parseObjectValue \<Rightarrow>
                if c = CHR '','' then Some (stateBeginString, parseObjectKey # ps)
                else if c = CHR ''}'' then popParseState (p # ps)
                else None
            | parseArrayValue \<Rightarrow>
                if c = CHR '','' then Some (stateBeginValue, p # ps)
                else if c = CHR '']'' then popParseState (p # ps)
                else None))"

definition beginValue :: "parseState list \<Rightarrow> char \<Rightarrow> (scanState \<times> parseState list) option" where
  "beginValue stack c =
     (if isSpace c then Some (stateBeginValue, stack)
      else if c = CHR ''{'' then Some (stateBeginStringOrEmpty, parseObjectKey # stack)
      else if c = CHR ''['' then Some (stateBeginValueOrEmpty, parseArrayValue # stack)
      else if c = CHR 0x22 then Some (stateInString, stack)
      else if c = CHR ''-'' then Some (stateNeg, stack)
      else if c = CHR ''0'' then Some (state0, stack)
      else if c = CHR ''t'' then Some (stateT, stack)
      else if c = CHR ''f'' then Some (stateF, stack)
      else if c = CHR ''n'' then Some (stateN, stack)
      else if isDigit c then Some (state1, stack)
      else None)"

definition expect :: "char \<Rightarrow> char \<Rightarrow> scanState \<Rightarrow> parseState list
    \<Rightarrow> (scanState \<times> parseState list) option" where
  "expect c x next stack = (if c = x then Some (next, stack) else None)"

fun step :: "scanState \<Rightarrow> parseState list \<Rightarrow> char \<Rightarrow> (scanState \<times> parseState list) option" where
  "step stateBeginValue stack c = beginValue stack c"
| "step stateBeginValueOrEmpty stack c =
     (if isSpace c then Some (stateBeginValueOrEmpty, stack)
      else if c = CHR '']'' then endValue stack c
      else beginValue stack c)"
| "step stateBeginStringOrEmpty stack c =
     (if isSpace c then Some (stateBeginStringOrEmpty, stack)
      else if c = CHR ''}'' then endValue (parseObjectValue # tl stack) c
      else if c = CHR 0x22 then Some (stateInString, stack)
      else None)"
| "step stateBeginString stack c =
     (if isSpace c then Some (stateBeginString, stack)
      else if c = CHR 0x22 then Some (stateInString, stack)
      else None)"
| "step stateEndValue stack c = endValue stack c"
| "step stateEndTop stack c = (if isSpace c then Some (stateEndTop, stack) else None)"
| "step stateInString stack c =
     (if c = CHR 0x22 then Some (stateEndValue, stack)
      else if c = CHR 0x5C then Some (stateInStringEsc, stack)
      else if (of_char c :: nat) < 32 then None
      else Some (stateInString, stack))"
| "step stateInStringEsc stack c =
     (if c \<in> set [CHR ''b'', CHR ''f'', CHR ''n'', CHR ''r'', CHR ''t'', CHR 0x5C, CHR ''/'', CHR 0x22]
      then Some (stateInString, stack)
      else if c = CHR ''u'' then Some (stateInStringEscU, stack)
      else None)"
| "step stateInStringEscU stack c = (if isHex c then Some (stateInStringEscU1, stack) else None)"
| "step stateInStringEscU1 stack c = (if isHex c then Some (stateInStringEscU12, stack) else None)"
| "step stateInStringEscU12 stack c = (if isHex c then Some (stateInStringEscU123, stack) else None)"
| "step stateInStringEscU123 stack c = (if isHex c then Some (stateInString, stack) else None)"
| "step stateNeg stack c =
     (if c = CHR ''0'' then Some (state0, stack)
      else if isDigit c then Some (state1, stack)
      else None)"
| "step state1 stack c =
     (if isDigit c then Some (state1, stack)
      else if c = CHR ''.'' then Some (stateDot, stack)
      else if c = CHR ''e'' \<or> c = CHR ''E'' then Some (stateE, stack)
      else endValue stack c)"
| "step state0 stack c =
     (if c = CHR ''.'' then Some (stateDot, stack)
      else if c = CHR ''e'' \<or> c = CHR ''E'' then Some (stateE, stack)
      else endValue stack c)"
| "step stateDot stack c = (if isDigit c then Some (stateDot0, stack) else None)"
| "step stateDot0 stack c =
     (if isDigit c then Some (stateDot0, stack)
      else if c = CHR ''e'' \<or> c = CHR ''E'' then Some (stateE, stack)
      else endValue stack c)"
| "step stateE stack c =
     (if c = CHR ''+'' \<or> c = CHR ''-'' then Some (stateESign, stack)
      else if isDigit c then Some (stateE0, stack)
      else None)"
| "step stateESign stack c = (if isDigit c then Some (stateE0, stack) else None)"
| "step stateE0 stack c = (if isDigit c then Some (stateE0, stack) else endValue stack c)"
| "step stateT stack c = expect c (CHR ''r'') stateTr stack"
| "step stateTr stack c = expect c (CHR ''u'') stateTru stack"
| "step stateTru stack c = expect c (CHR ''e'') stateEndValue stack"
| "step stateF stack c = expect c (CHR ''a'') stateFa stack"
| "step stateFa stack c = expect c (CHR ''l'') stateFal stack"
| "step stateFal stack c = expect c (CHR ''s'') stateFals stack"
| "step stateFals stack c = expect c (CHR ''e'') stateEndValue stack"
| "step stateN stack c = expect c (CHR ''u'') stateNu stack"
| "step stateNu stack c = expect c (CHR ''l'') stateNul stack"
| "step stateNul stack c = expect c (CHR ''l'') stateEndValue stack"

fun scan :: "scanState \<times> parseState list \<Rightarrow> string \<Rightarrow> (scanState \<times> parseState list) option" where
  "scan s [] = Some s"
| "scan s (c # cs) = (case step (fst s) (snd s) c of None \<Rightarrow> None | Some s' \<Rightarrow> scan s' cs)"

text \<open>
  At the end of the input the scanner is fed one space: the input is well-formed when the
  top-level value is then complete.
\<close>

definition json_Valid :: "string \<Rightarrow> bool" where
  "json_Valid data =
     (case scan (stateBeginValue, []) data of
        None \<Rightarrow> False
      | Some s \<Rightarrow>
          fst s = stateEndTop
          \<or> (case step (fst s) (snd s) (CHR '' '') of
                None \<Rightarrow> False
              | Some s' \<Rightarrow> fst s' = stateEndTop))"

definition json_Unmarshal :: "Lib \<Rightarrow> string \<Rightarrow> WUAstronomy \<Rightarrow> WUAstronomy \<times> error option" where
  "json_Unmarshal lib data v =
     (if json_Valid data then json_decode lib data v else (v, Some (json_SyntaxError lib data)))"

definition jsonapi_MediaType :: string where
  "jsonapi_MediaType = ''application/vnd.api+json''"

fun Error :: "Lib \<Rightarrow> error \<Rightarrow> string" where
  "Error lib redis_Nil = ''redis: nil''"
| "Error lib (NumError f n c) =
     ''strconv.'' @ f @ '': parsing '' @ strconv_Quote lib n @ '': '' @
     (case c of ErrSyntax \<Rightarrow> ''invalid syntax'' | ErrRange \<Rightarrow> ''value out of range'')"
| "Error lib (Err m) = m"

text \<open>
  Lines of the log. The three \<open>Fatal\<close> forms end the process (\<open>log.Fatal\<close> is
  \<open>Print\<close> followed by \<open>os.Exit(1)\<close>): the statement after them is never reached.
\<close>

datatype log_entry =
    Println string error
  | Fatal_error error
  | Fatal_string string
  | Fatalf string error

text \<open>
  What a function call ends with: the process exits (with the fatal line), the call
  panics (with the value of the panic; the server recovers a panic of a handler and goes
  on serving), or the call returns a value. All three carry the state reached.
\<close>

datatype ('r, 's) outcome = Exit log_entry 's | Panic string 's | Return 'r 's

text \<open>
  The world: the clock, the cache (each key with its value and time to live, and the
  error, if any, that a read or a write fails with), the upstream server (for a URL: the
  error of the GET, or else the error of reading the body, or else the body), the URLs
  requested, the writes sent to the cache (key, value, time to live) and the log.
\<close>

record World =
  time_Now :: Time
  redis_data :: "string \<rightharpoonup> string \<times> int"
  redis_Get_fault :: "error option"
  redis_Set_fault :: "error option"
  http_Get :: "string \<Rightarrow> error + (error + string)"
  requests :: "string list"
  redis_writes :: "(string \<times> string \<times> int) list"
  logged :: "log_entry list"

definition redis_Get :: "World \<Rightarrow> string \<Rightarrow> string \<times> error option" where
  "redis_Get w key =
     (case redis_Get_fault w of
        Some e \<Rightarrow> ([], Some e)
      | None \<Rightarrow> (case redis_data w key of None \<Rightarrow> ([], Some redis_Nil) | Some (v, ttl) \<Rightarrow> (v, None)))"

definition redis_Set :: "World \<Rightarrow> string \<Rightarrow> string \<Rightarrow> int \<Rightarrow> error option \<times> World" where
  "redis_Set w key val ttl =
     (let w1 = w\<lparr>redis_writes := redis_writes w @ [(key, val, ttl)]\<rparr>
      in case redis_Set_fault w of
           Some e \<Rightarrow> (Some e, w1)
         | None \<Rightarrow> (None, w1\<lparr>redis_data := (redis_data w)(key \<mapsto> (val, ttl))\<rparr>))"

definition log_Println :: "World \<Rightarrow> string \<Rightarrow> error \<Rightarrow> World" where
  "log_Println w msg e = w\<lparr>logged := logged w @ [Println msg e]\<rparr>"

text \<open>\<open>time.Duration\<close> counts nanoseconds.\<close>

definition time_Hour :: int where
  "time_Hour = 3600000000000"

subsection \<open>The response writer\<close>

text \<open>
  \<open>http.ResponseWriter\<close>: the header map, the status once written together with the
  headers as they were at that moment (a later change of the map is not sent), and the
  body. A second \<open>WriteHeader\<close> is ignored; the first one panics, with nothing
  written, on a code below 100 or above 999 (\<open>Inl\<close> is the panic). The first \<open>Write\<close>
  writes status 200 when none was written.
\<close>

record ResponseWriter =
  Header :: "string \<rightharpoonup> string"
  status :: "int option"
  sent :: "string \<rightharpoonup> string"
  body :: string

definition newResponse :: ResponseWriter where
  "newResponse = \<lparr>Header = Map.empty, status = None, sent = Map.empty, body = []\<rparr>"

definition Header_Set :: "ResponseWriter \<Rightarrow> string \<Rightarrow> string \<Rightarrow> ResponseWriter" where
  "Header_Set rw k v = rw\<lparr>Header := (Header rw)(k \<mapsto> v)\<rparr>"

definition WriteHeader :: "ResponseWriter \<Rightarrow> int \<Rightarrow> string + ResponseWriter" where
  "WriteHeader rw code =
     (if status rw \<noteq> None then Inr rw
      else if code < 100 \<or> code > 999 then Inl (''invalid WriteHeader code '' @ Itoa code)
      else Inr (rw\<lparr>status := Some code, sent := Header rw\<rparr>))"

definition Write :: "ResponseWriter \<Rightarrow> string \<Rightarrow> ResponseWriter" where
  "Write rw p =
     (let rw1 = (if status rw = None
                 then (case WriteHeader rw 200 of Inr r \<Rightarrow> r | Inl m \<Rightarrow> rw)
                 else rw)
      in rw1\<lparr>body := body rw1 @ p\<rparr>)"

record Request =
  Method :: string

section \<open>The program\<close>

subsection \<open>collectConfig\<close>

text \<open>
  \<open>getenv\<close> is \<open>os.Getenv\<close>: the value of the variable, empty when it is not set.
  \<open>Inl\<close> is the end of the process with the fatal line logged.
\<close>

definition panicOnError :: "error option \<Rightarrow> string \<Rightarrow> log_entry option" where
  "panicOnError err msg = (case err of Some e \<Rightarrow> Some (Fatalf msg e) | None \<Rightarrow> None)"

definition collectConfig :: "(string \<Rightarrow> string) \<Rightarrow> log_entry + Config" where
  "collectConfig getenv =
     (let missingEnv0 = [];
          envHTTPPort = getenv ''HTTP_PORT'';
          cHTTPPort = (if envHTTPPort = [] then '':8080'' else '':'' @ envHTTPPort);
          cRedisAddr = getenv ''REDIS_ADDR'';
          missingEnv1 = (if cRedisAddr = [] then missingEnv0 @ [''REDIS_ADDR''] else missingEnv0);
          cRedisPassword = getenv ''REDIS_PASSWORD'';
          envRedisDB = getenv ''REDIS_DB'';
          parsed = (if envRedisDB = [] then (0, None) else Atoi envRedisDB)
      in case panicOnError (snd parsed) ''Error parsing REDIS_DB'' of
           Some fatal \<Rightarrow> Inl fatal
         | None \<Rightarrow>
            (let cRedisDB = fst parsed;
                 envRedisPrefix = getenv ''REDIS_PREFIX'';
                 cRedisPrefix = (if envRedisPrefix = [] then ''ph:'' else envRedisPrefix);
                 cWUndergroundKey = getenv ''WU_KEY'';
                 missingEnv2 =
                   (if cWUndergroundKey = [] then missingEnv1 @ [''WU_KEY''] else missingEnv1);
                 cWUndergroundLocation = getenv ''WU_LOCATION'';
                 missingEnv3 =
                   (if cWUndergroundLocation = [] then missingEnv2 @ [''WU_LOCATION'']
                    else missingEnv2)
             in if length missingEnv3 > 0
                then Inl (Fatal_string
                       (Sprintf ''Environment variables missing: %v'' [OpStrs missingEnv3]))
                else Inr \<lparr>HTTPPort = cHTTPPort, RedisAddr = cRedisAddr, RedisDB = cRedisDB,
                          RedisPassword = cRedisPassword, RedisPrefix = cRedisPrefix,
                          WUndergroundKey = cWUndergroundKey,
                          WUndergroundLocation = cWUndergroundLocation\<rparr>))"

text \<open>
  \<open>main\<close> up to the point where it registers the handler and listens: the configuration
  is collected first, then the cache is pinged (\<open>ping\<close> is the error of that call).
  \<open>Inr env\<close> means that the server starts serving with \<open>env\<close>.
\<close>

definition main :: "(string \<Rightarrow> string) \<Rightarrow> (Config \<Rightarrow> error option) \<Rightarrow> log_entry + Env" where
  "main getenv ping =
     (case collectConfig getenv of
        Inl fatal \<Rightarrow> Inl fatal
      | Inr c \<Rightarrow>
          (case panicOnError (ping c) ''Failed to connect to Redis'' of
             Some fatal \<Rightarrow> Inl fatal
           | None \<Rightarrow> Inr \<lparr>config = c\<rparr>))"


subsection \<open>makeErrorResponse\<close>

text \<open>Reading a Go map at a key it does not hold gives the zero value, the empty string.\<close>

definition index :: "(int \<rightharpoonup> string) \<Rightarrow> int \<Rightarrow> string" where
  "index m k = (case m k of None \<Rightarrow> [] | Some v \<Rightarrow> v)"

definition codeTitle :: "int \<rightharpoonup> string" where
  "codeTitle =
     Map.empty
       (1 \<mapsto> ''Malformed JSON Body'',
        2201 \<mapsto> ''Missing Required Attribute'',
        2202 \<mapsto> ''Requested Relationship Not Found'')"

definition statusTitle :: "int \<rightharpoonup> string" where
  "statusTitle =
     Map.empty
       (400 \<mapsto> ''Bad Request'',
        401 \<mapsto> ''Unauthorized'',
        404 \<mapsto> ''Not Found'',
        405 \<mapsto> ''Method Not Allowed'',
        406 \<mapsto> ''Not Acceptable'',
        409 \<mapsto> ''Conflict'',
        415 \<mapsto> ''Unsupported Media Type'',
        422 \<mapsto> ''Unprocessable Entity'',
        500 \<mapsto> ''Internal Server Error'')"

text \<open>
  The document that \<open>makeErrorResponse\<close> builds from its arguments. The function
  computes the strings, writes the status code, sets the content type and then builds
  and serializes the document: when \<open>WriteHeader\<close> panics, no document is produced.
\<close>

definition makeErrorObject :: "int \<Rightarrow> string \<Rightarrow> int \<Rightarrow> ErrorObject" where
  "makeErrorObject st detail code =
     (let statusStr = Itoa st;
          title = (if code = 0 then index statusTitle st else index codeTitle code);
          codeStr = (if code = 0 then [] else Itoa code)
      in \<lparr>Title = title, Detail = detail, Status = statusStr, Code = codeStr\<rparr>)"

definition makeErrorResponse ::
  "Lib \<Rightarrow> ResponseWriter \<Rightarrow> int \<Rightarrow> string \<Rightarrow> int \<Rightarrow> string + ResponseWriter" where
  "makeErrorResponse lib response st detail code =
     (case WriteHeader response st of
        Inl panic \<Rightarrow> Inl panic
      | Inr r1 \<Rightarrow>
          (let r2 = Header_Set r1 ''Content-Type'' jsonapi_MediaType
           in Inr (Write r2 (jsonapi_MarshalErrors lib [makeErrorObject st detail code]))))"

subsection \<open>The astronomy client\<close>

text \<open>The address that \<open>getWUApiRepose\<close> requests.\<close>

definition api_url :: "string \<Rightarrow> string \<Rightarrow> string \<Rightarrow> string" where
  "api_url key feature location =
     ''https://api.wunderground.com/api/'' @ key @ ''/'' @ feature @ ''/q/'' @ location @ ''.json''"

definition getWUApiRepose ::
  "World \<Rightarrow> string \<Rightarrow> string \<Rightarrow> string \<Rightarrow> (string \<times> error option, World) outcome" where
  "getWUApiRepose w key feature location =
     (let url = api_url key feature location;
          w1 = w\<lparr>requests := requests w @ [url]\<rparr>
      in case http_Get w url of
           Inl err \<Rightarrow> Exit (Fatal_error err) w1
         | Inr response \<Rightarrow>
             (case response of
                Inl err \<Rightarrow> Exit (Fatal_error err) w1
              | Inr responseData \<Rightarrow> Return (responseData, None) w1))"

definition getWUAstronomy ::
  "Lib \<Rightarrow> World \<Rightarrow> string \<Rightarrow> string \<Rightarrow> string \<Rightarrow> (WUAstronomy \<times> error option, World) outcome" where
  "getWUAstronomy lib w key feature location =
     (case getWUApiRepose w key feature location of
        Exit fatal w1 \<Rightarrow> Exit fatal w1
      | Panic panic w1 \<Rightarrow> Panic panic w1
      | Return (astronomy, err) w1 \<Rightarrow>
          if err \<noteq> None then Return (zero_WUAstronomy, err) w1
          else Return (fst (json_Unmarshal lib astronomy zero_WUAstronomy), None) w1)"

subsection \<open>handleSunPhase\<close>

text \<open>The record that the handler builds from the strings of the upstream document.\<close>

definition responseObj :: "string \<Rightarrow> WUAstronomy \<Rightarrow> SunPhaseRespose" where
  "responseObj key astronomy =
     (let vSunriseH = fst (Atoi (Hour (Sunrise (SunPhase astronomy))));
          vSunriseM = fst (Atoi (Minute (Sunrise (SunPhase astronomy))));
          vSunsetH = fst (Atoi (Hour (Sunset (SunPhase astronomy))));
          vSunsetM = fst (Atoi (Minute (Sunset (SunPhase astronomy))))
      in \<lparr>ResponseID = key, SunriseM = vSunriseM, SunriseH = vSunriseH,
          SunsetM = vSunsetM, SunsetH = vSunsetH\<rparr>)"

text \<open>
  The handler from the statement after the call of \<open>getWUAstronomy\<close> to its end, given
  what the call returned.
\<close>

definition handleSunPhase_fetched ::
  "Lib \<Rightarrow> string \<Rightarrow> WUAstronomy \<times> error option \<Rightarrow> ResponseWriter \<times> World
     \<Rightarrow> (unit, ResponseWriter \<times> World) outcome" where
  "handleSunPhase_fetched lib key fetched s =
     (let astronomy = fst fetched; err = snd fetched;
          response = fst s; w = snd s
      in case (case err of
                 Some e \<Rightarrow> makeErrorResponse lib response 500 (Error lib e) 0
               | None \<Rightarrow> Inr response) of
           Inl panic \<Rightarrow> Panic panic (response, w)
         | Inr response1 \<Rightarrow>
             (case jsonapi_MarshalPayload lib (responseObj key astronomy) of
                Inl e \<Rightarrow>
                  (case makeErrorResponse lib response1 500 (Error lib e) 0 of
                     Inl panic \<Rightarrow> Panic panic (response1, w)
                   | Inr response2 \<Rightarrow> Return () (response2, w))
              | Inr eventPayload \<Rightarrow>
                  (let ttl = 168 * time_Hour;
                       set = redis_Set w key eventPayload ttl;
                       w1 = (case fst set of
                               Some cacheErr \<Rightarrow>
                                 log_Println (snd set) ''Error commiting to cache: %s'' cacheErr
                             | None \<Rightarrow> snd set);
                       response2 = Header_Set response1 ''Content-Type'' jsonapi_MediaType
                   in Return () (Write response2 eventPayload, w1))))"

definition handleSunPhase ::
  "Lib \<Rightarrow> Env \<Rightarrow> Request \<Rightarrow> ResponseWriter \<times> World \<Rightarrow> (unit, ResponseWriter \<times> World) outcome" where
  "handleSunPhase lib env request s =
     (let response = fst s; w = snd s
      in if Method request = ''GET'' then
           (let today = time_Now w;
                key = cacheKey (config env) today;
                cacheVal = fst (redis_Get w key);
                err = snd (redis_Get w key)
            in if err = None then
                 Return () (Write (Header_Set response ''Content-Type'' jsonapi_MediaType) cacheVal, w)
               else
                 (let w1 = (case err of
                              Some e \<Rightarrow> if e \<noteq> redis_Nil
                                        then log_Println w ''Error reading cache: %s'' e else w
                            | None \<Rightarrow> w)
                  in case getWUAstronomy lib w1 (WUndergroundKey (config env)) ''astronomy''
                            (WUndergroundLocation (config env)) of
                       Exit fatal w2 \<Rightarrow> Exit fatal (response, w2)
                     | Panic panic w2 \<Rightarrow> Panic panic (response, w2)
                     | Return fetched w2 \<Rightarrow>
                         handleSunPhase_fetched lib key fetched (response, w2)))
         else (case makeErrorResponse lib response 405 (Method request) 0 of
                 Inl panic \<Rightarrow> Panic panic (response, w)
               | Inr response1 \<Rightarrow> Return () (response1, w)))"

subsection \<open>Reading the outcome of a request\<close>

fun world_of :: "('r, ResponseWriter \<times> World) outcome \<Rightarrow> World" where
  "world_of (Exit fatal s) = snd s"
| "world_of (Panic panic s) = snd s"
| "world_of (Return r s) = snd s"

fun map_world ::
  "(World \<Rightarrow> World) \<Rightarrow> ('r, ResponseWriter \<times> World) outcome \<Rightarrow> ('r, ResponseWriter \<times> World) outcome" where
  "map_world f (Exit fatal s) = Exit fatal (fst s, f (snd s))"
| "map_world f (Panic panic s) = Panic panic (fst s, f (snd s))"
| "map_world f (Return r s) = Return r (fst s, f (snd s))"

subsection \<open>A concrete instance\<close>

text \<open>
  One instance of the library parameters, of the configuration and of the world, on which
  the theorems below are exercised: a decoding that fills no field, serializers that
  print the fields they are given, an empty cache, an upstream server that answers every
  request with a body that is not JSON, and 15 March 2024 as the date.
\<close>

definition example_lib :: Lib where
  "example_lib =
     \<lparr>json_decode = (\<lambda>data target. (target, None)),
      json_SyntaxError = (\<lambda>data. Err ''invalid character''),
      jsonapi_MarshalPayload =
        (\<lambda>r. Inr (''data:'' @ ResponseID r @ '','' @ Itoa (SunriseH r) @ '':'' @ Itoa (SunriseM r)
                  @ '','' @ Itoa (SunsetH r) @ '':'' @ Itoa (SunsetM r))),
      jsonapi_MarshalErrors =
        (\<lambda>es. concat (map (\<lambda>e. ''error:'' @ Status e @ '','' @ Title e @ '','' @ Detail e) es)),
      strconv_Quote = (\<lambda>s. s)\<rparr>"

definition example_env :: Env where
  "example_env =
     \<lparr>config = \<lparr>HTTPPort = '':8080'', RedisAddr = ''localhost:6379'', RedisDB = 0,
                 RedisPassword = [], RedisPrefix = ''ph:'', WUndergroundKey = ''k'',
                 WUndergroundLocation = ''l''\<rparr>\<rparr>"

definition example_world :: World where
  "example_world =
     \<lparr>time_Now = \<lparr>Year = 2024, Month = March, Day = 15\<rparr>, redis_data = Map.empty,
      redis_Get_fault = None, redis_Set_fault = None,
      http_Get = (\<lambda>url. Inr (Inr ''not json'')), requests = [], redis_writes = [],
      logged = []\<rparr>"

text \<open>
  A body that is JSON but not of the expected shape: the sunrise hour is the string
  \<open>6\<close>, the minute is a number. On a value that the target field does not take,
  \<open>json.Unmarshal\<close> skips the field, completes the decoding and returns the first such
  error: \<open>skipping_lib\<close> decodes this body so.
\<close>

definition quoted :: "string \<Rightarrow> string" where
  "quoted s = CHR 0x22 # s @ [CHR 0x22]"

definition wrong_shape_body :: string where
  "wrong_shape_body =
     ''{'' @ quoted ''sun_phase'' @ '':{'' @ quoted ''sunrise'' @ '':{'' @
     quoted ''hour'' @ '':'' @ quoted ''6'' @ '','' @ quoted ''minute'' @ '':7}}}''"

definition skipping_lib :: Lib where
  "skipping_lib =
     example_lib\<lparr>json_decode :=
       (\<lambda>data target.
          if data = wrong_shape_body
          then (target\<lparr>SunPhase :=
                  (SunPhase target)\<lparr>Sunrise := (Sunrise (SunPhase target))\<lparr>Hour := ''6''\<rparr>\<rparr>\<rparr>,
                Some (Err ''json: cannot unmarshal number into Go value of type string''))
          else (target, None))\<rparr>"

definition example_getenv :: "string \<Rightarrow> string" where
  "example_getenv =
     (\<lambda>name. [])(''REDIS_ADDR'' := ''localhost:6379'', ''WU_KEY'' := ''k'', ''WU_LOCATION'' := ''l'')"


section \<open>Properties\<close>

subsection \<open>Auxiliary facts\<close>



lemma Itoa_405: "Itoa 405 = ''405''"
  by (simp add: Itoa_def itoa_nat.simps digit_char_def)

lemma Itoa_500: "Itoa 500 = ''500''"
  by (simp add: Itoa_def itoa_nat.simps digit_char_def)

lemma Atoi_Nil: "Atoi [] = (0, Some (NumError ''Atoi'' [] ErrSyntax))"
  by (simp add: Atoi_def)

lemma example_key:
  "cacheKey (config example_env) \<lparr>Year = 2024, Month = March, Day = 15\<rparr> =
     ''ph:weather:sun_phase:2024-March-15''"
  by (simp add: cacheKey_def example_env_def printString_def Itoa_def itoa_nat.simps
      digit_char_def)

lemma example_url:
  "api_url (WUndergroundKey (config example_env)) ''astronomy''
     (WUndergroundLocation (config example_env)) =
   ''https://api.wunderground.com/api/k/astronomy/q/l.json''"
  by (simp add: api_url_def example_env_def)

lemma makeErrorResponse_new:
  "100 \<le> st \<Longrightarrow> st \<le> 999 \<Longrightarrow>
   makeErrorResponse lib newResponse st detail code =
     Inr \<lparr>Header = [''Content-Type'' \<mapsto> jsonapi_MediaType], status = Some st,
          sent = Map.empty,
          body = jsonapi_MarshalErrors lib [makeErrorObject st detail code]\<rparr>"
  by (simp add: makeErrorResponse_def newResponse_def WriteHeader_def Header_Set_def Write_def)


lemma makeErrorObject_405:
  "makeErrorObject 405 detail 0 =
     \<lparr>Title = ''Method Not Allowed'', Detail = detail, Status = ''405'', Code = []\<rparr>"
  by (simp add: makeErrorObject_def index_def statusTitle_def Itoa_405)

lemma makeErrorObject_500:
  "makeErrorObject 500 detail 0 =
     \<lparr>Title = ''Internal Server Error'', Detail = detail, Status = ''500'', Code = []\<rparr>"
  by (simp add: makeErrorObject_def index_def statusTitle_def Itoa_500)

lemma responseObj_zero:
  "SunPhase a = SunPhase zero_WUAstronomy \<Longrightarrow>
   responseObj key a =
     \<lparr>ResponseID = key, SunriseM = 0, SunriseH = 0, SunsetM = 0, SunsetH = 0\<rparr>"
  by (simp add: responseObj_def zero_WUAstronomy_def Atoi_Nil)

lemma http_Get_log_Println [simp]: "http_Get (log_Println w m e) = http_Get w"
  by (simp add: log_Println_def)

lemma requests_log_Println [simp]: "requests (log_Println w m e) = requests w"
  by (simp add: log_Println_def)

lemma getWUApiRepose_ok:
  "http_Get w (api_url key feature location) = Inr (Inr data) \<Longrightarrow>
   getWUApiRepose w key feature location =
     Return (data, None) (w\<lparr>requests := requests w @ [api_url key feature location]\<rparr>)"
  by (simp add: getWUApiRepose_def)

lemma getWUApiRepose_fatal:
  "http_Get w (api_url key feature location) = Inl e
     \<or> http_Get w (api_url key feature location) = Inr (Inl e) \<Longrightarrow>
   getWUApiRepose w key feature location =
     Exit (Fatal_error e) (w\<lparr>requests := requests w @ [api_url key feature location]\<rparr>)"
  by (auto simp: getWUApiRepose_def)

lemma getWUApiRepose_no_error:
  "getWUApiRepose w key feature location \<noteq> Return (data, Some e) w'"
  by (simp add: getWUApiRepose_def Let_def split: sum.splits)

lemma getWUAstronomy_ok:
  "http_Get w (api_url key feature location) = Inr (Inr data) \<Longrightarrow>
   getWUAstronomy lib w key feature location =
     Return (fst (json_Unmarshal lib data zero_WUAstronomy), None)
       (w\<lparr>requests := requests w @ [api_url key feature location]\<rparr>)"
  by (simp add: getWUAstronomy_def getWUApiRepose_ok)

lemma getWUAstronomy_fatal:
  "http_Get w (api_url key feature location) = Inl e
     \<or> http_Get w (api_url key feature location) = Inr (Inl e) \<Longrightarrow>
   getWUAstronomy lib w key feature location =
     Exit (Fatal_error e) (w\<lparr>requests := requests w @ [api_url key feature location]\<rparr>)"
  by (simp add: getWUAstronomy_def getWUApiRepose_fatal)

lemma getWUAstronomy_no_error:
  "getWUAstronomy lib w key feature location \<noteq> Return (a, Some e) w'"
  by (simp add: getWUAstronomy_def getWUApiRepose_def Let_def split: sum.splits)

lemma getWUAstronomy_no_panic:
  "getWUAstronomy lib w key feature location \<noteq> Panic panic w'"
  by (simp add: getWUAstronomy_def getWUApiRepose_def Let_def split: sum.splits)

text \<open>After a read that did not hit, the handler calls the client and goes on from there.\<close>

lemma handleSunPhase_no_hit:
  assumes "Method request = ''GET''"
    and "redis_Get w (cacheKey (config env) (time_Now w)) = (v, Some ce)"
  shows "handleSunPhase lib env request (response, w) =
     (case getWUAstronomy lib
             (if ce \<noteq> redis_Nil then log_Println w ''Error reading cache: %s'' ce else w)
             (WUndergroundKey (config env)) ''astronomy'' (WUndergroundLocation (config env)) of
        Exit fatal w2 \<Rightarrow> Exit fatal (response, w2)
      | Panic panic w2 \<Rightarrow> Panic panic (response, w2)
      | Return fetched w2 \<Rightarrow>
          handleSunPhase_fetched lib (cacheKey (config env) (time_Now w)) fetched
            (response, w2))"
  using assms by (simp add: handleSunPhase_def Let_def)

lemma Itoa_0: "Itoa 0 = ''0''"
  by (simp add: Itoa_def itoa_nat.simps digit_char_def)

lemma redis_Get_cong:
  "redis_Get_fault w1 = redis_Get_fault w2 \<Longrightarrow> redis_data w1 = redis_data w2 \<Longrightarrow>
   redis_Get w1 key = redis_Get w2 key"
  by (simp add: redis_Get_def cong: option.case_cong)

lemma redis_Set_ok:
  "redis_Set_fault w = None \<Longrightarrow>
   redis_Set w key val ttl =
     (None, w\<lparr>redis_writes := redis_writes w @ [(key, val, ttl)],
              redis_data := (redis_data w)(key \<mapsto> (val, ttl))\<rparr>)"
  by (simp add: redis_Set_def)

text \<open>A read without error: the handler answers from the cache.\<close>

lemma handleSunPhase_hit:
  assumes "Method request = ''GET''"
    and "redis_Get w (cacheKey (config env) (time_Now w)) = (cacheVal, None)"
  shows "handleSunPhase lib env request (newResponse, w) =
           Return ()
             (\<lparr>Header = [''Content-Type'' \<mapsto> jsonapi_MediaType], status = Some 200,
               sent = [''Content-Type'' \<mapsto> jsonapi_MediaType], body = cacheVal\<rparr>, w)"
  using assms
  by (simp add: handleSunPhase_def Let_def newResponse_def Header_Set_def Write_def
      WriteHeader_def)

text \<open>The miss path once the body has been fetched and the record serialized.\<close>

lemma handleSunPhase_fetched_ok:
  assumes "jsonapi_MarshalPayload lib (responseObj key a) = Inr p"
  shows "handleSunPhase_fetched lib key (a, None) (newResponse, w) =
     Return ()
     (\<lparr>Header = [''Content-Type'' \<mapsto> jsonapi_MediaType], status = Some 200,
       sent = [''Content-Type'' \<mapsto> jsonapi_MediaType], body = p\<rparr>,
      (case fst (redis_Set w key p (168 * time_Hour)) of
         Some cacheErr \<Rightarrow>
           log_Println (snd (redis_Set w key p (168 * time_Hour)))
             ''Error commiting to cache: %s'' cacheErr
       | None \<Rightarrow> snd (redis_Set w key p (168 * time_Hour))))"
  using assms
  by (simp add: handleSunPhase_fetched_def Let_def newResponse_def Header_Set_def Write_def
      WriteHeader_def)

lemma handleSunPhase_miss:
  assumes "Method request = ''GET''"
    and "redis_Get w (cacheKey (config env) (time_Now w)) = (v, Some ce)"
    and "http_Get w (api_url (WUndergroundKey (config env)) ''astronomy''
                       (WUndergroundLocation (config env))) = Inr (Inr data)"
    and "jsonapi_MarshalPayload lib
           (responseObj (cacheKey (config env) (time_Now w))
              (fst (json_Unmarshal lib data zero_WUAstronomy))) = Inr p"
  shows "\<exists>w'. handleSunPhase lib env request (newResponse, w) =
           Return ()
             (\<lparr>Header = [''Content-Type'' \<mapsto> jsonapi_MediaType], status = Some 200,
               sent = [''Content-Type'' \<mapsto> jsonapi_MediaType], body = p\<rparr>, w')
         \<and> redis_writes w' =
             redis_writes w @ [(cacheKey (config env) (time_Now w), p, 168 * time_Hour)]
         \<and> requests w' =
             requests w @ [api_url (WUndergroundKey (config env)) ''astronomy''
                             (WUndergroundLocation (config env))]
         \<and> (redis_Set_fault w = None \<longrightarrow>
              redis_data w' =
                (redis_data w)(cacheKey (config env) (time_Now w) \<mapsto> (p, 168 * time_Hour)))"
proof -
  let ?w1 = "if ce \<noteq> redis_Nil then log_Println w ''Error reading cache: %s'' ce else w"
  let ?url = "api_url (WUndergroundKey (config env)) ''astronomy''
                (WUndergroundLocation (config env))"
  let ?key = "cacheKey (config env) (time_Now w)"
  let ?w2 = "?w1\<lparr>requests := requests ?w1 @ [?url]\<rparr>"
  have g: "http_Get ?w1 ?url = Inr (Inr data)"
    using assms(3) by simp
  have a: "getWUAstronomy lib ?w1 (WUndergroundKey (config env)) ''astronomy''
             (WUndergroundLocation (config env)) =
           Return (fst (json_Unmarshal lib data zero_WUAstronomy), None) ?w2"
    by (rule getWUAstronomy_ok [OF g])
  have h: "handleSunPhase lib env request (newResponse, w) =
           handleSunPhase_fetched lib ?key
             (fst (json_Unmarshal lib data zero_WUAstronomy), None) (newResponse, ?w2)"
    unfolding handleSunPhase_no_hit [OF assms(1,2)] a by simp
  have w2: "redis_writes ?w2 = redis_writes w" "requests ?w2 = requests w @ [?url]"
    "redis_Set_fault ?w2 = redis_Set_fault w" "redis_data ?w2 = redis_data w"
    by (simp_all add: log_Println_def)
  show ?thesis
    unfolding h handleSunPhase_fetched_ok [OF assms(4)]
    using w2
    by (cases "redis_Set_fault w")
       (simp_all add: redis_Set_def Let_def log_Println_def split: option.splits)
qed

text \<open>The client and the rest of the handler neither read nor change the read fault.\<close>

lemma getWUApiRepose_Get_fault:
  "getWUApiRepose (w\<lparr>redis_Get_fault := g\<rparr>) key feature location =
     (case getWUApiRepose w key feature location of
        Exit fatal w1 \<Rightarrow> Exit fatal (w1\<lparr>redis_Get_fault := g\<rparr>)
      | Panic panic w1 \<Rightarrow> Panic panic (w1\<lparr>redis_Get_fault := g\<rparr>)
      | Return r w1 \<Rightarrow> Return r (w1\<lparr>redis_Get_fault := g\<rparr>))"
  by (simp add: getWUApiRepose_def Let_def split: sum.splits)

lemma getWUAstronomy_Get_fault:
  "getWUAstronomy lib (w\<lparr>redis_Get_fault := g\<rparr>) key feature location =
     (case getWUAstronomy lib w key feature location of
        Exit fatal w1 \<Rightarrow> Exit fatal (w1\<lparr>redis_Get_fault := g\<rparr>)
      | Panic panic w1 \<Rightarrow> Panic panic (w1\<lparr>redis_Get_fault := g\<rparr>)
      | Return r w1 \<Rightarrow> Return r (w1\<lparr>redis_Get_fault := g\<rparr>))"
  by (simp add: getWUAstronomy_def getWUApiRepose_Get_fault
      split: outcome.splits prod.splits)

lemma handleSunPhase_fetched_Get_fault:
  "handleSunPhase_fetched lib key fetched (response, w\<lparr>redis_Get_fault := g\<rparr>) =
     map_world (\<lambda>x. x\<lparr>redis_Get_fault := g\<rparr>)
       (handleSunPhase_fetched lib key fetched (response, w))"
  by (simp add: handleSunPhase_fetched_def Let_def redis_Set_def log_Println_def
      split: sum.splits option.splits)

lemma fault_fetched:
  "redis_Get_fault (world_of (handleSunPhase_fetched lib key fetched (response, w))) =
     redis_Get_fault w"
  by (simp add: handleSunPhase_fetched_def Let_def redis_Set_def log_Println_def
      split: sum.splits option.splits)

lemma requests_fetched:
  "requests (world_of (handleSunPhase_fetched lib key fetched (response, w))) = requests w"
  by (simp add: handleSunPhase_fetched_def Let_def redis_Set_def log_Println_def
      split: sum.splits option.splits)

lemma logged_fetched:
  "\<exists>rest. logged (world_of (handleSunPhase_fetched lib key fetched (response, w))) =
           logged w @ rest"
  by (simp add: handleSunPhase_fetched_def Let_def redis_Set_def log_Println_def
      split: sum.splits option.splits)

lemma getWUAstronomy_requests:
  "requests (case getWUAstronomy lib w key feature location of
               Exit fatal w1 \<Rightarrow> w1 | Panic panic w1 \<Rightarrow> w1 | Return r w1 \<Rightarrow> w1) =
     requests w @ [api_url key feature location]"
  by (simp add: getWUAstronomy_def getWUApiRepose_def Let_def
      split: sum.splits outcome.splits prod.splits)

lemma getWUAstronomy_logged:
  "logged (case getWUAstronomy lib w key feature location of
             Exit fatal w1 \<Rightarrow> w1 | Panic panic w1 \<Rightarrow> w1 | Return r w1 \<Rightarrow> w1) = logged w"
  by (simp add: getWUAstronomy_def getWUApiRepose_def Let_def
      split: sum.splits outcome.splits prod.splits)

lemma getWUAstronomy_fault:
  "redis_Get_fault (case getWUAstronomy lib w key feature location of
             Exit fatal w1 \<Rightarrow> w1 | Panic panic w1 \<Rightarrow> w1 | Return r w1 \<Rightarrow> w1) =
     redis_Get_fault w"
  by (simp add: getWUAstronomy_def getWUApiRepose_def Let_def
      split: sum.splits outcome.splits prod.splits)

lemma map_world_id: "f (world_of r) = world_of r \<Longrightarrow> map_world f r = r"
  by (cases r) auto

lemma map_world_comp: "map_world f (map_world g r) = map_world (\<lambda>x. f (g x)) r"
  by (cases r) auto

text \<open>A body that is not well-formed leaves the target as it is.\<close>

lemma json_Unmarshal_invalid:
  "\<not> json_Valid data \<Longrightarrow> json_Unmarshal lib data v = (v, Some (json_SyntaxError lib data))"
  by (simp add: json_Unmarshal_def)

lemma not_json_invalid: "\<not> json_Valid ''not json''"
  by (simp add: json_Valid_def isSpace_def isDigit_def beginValue_def popParseState_def
      expect_def)

lemma wrong_shape_body_valid: "json_Valid wrong_shape_body"
  by (simp add: json_Valid_def wrong_shape_body_def quoted_def isSpace_def isDigit_def
      beginValue_def popParseState_def expect_def)

lemma missing_message:
  "Sprintf ''Environment variables missing: %v'' [OpStrs xs] =
     ''Environment variables missing: ['' @ join '' '' xs @ '']''"
proof -
  have "printString (CHR ''v'') = (\<lambda>s. s)"
    by (simp add: fun_eq_iff printString_def)
  then show ?thesis by simp
qed

text \<open>The concrete instance.\<close>

lemma example_payload:
  "jsonapi_MarshalPayload example_lib
     \<lparr>ResponseID = key, SunriseM = 0, SunriseH = 0, SunsetM = 0, SunsetH = 0\<rparr> =
   Inr (''data:'' @ key @ '',0:0,0:0'')"
  by (simp add: example_lib_def Itoa_0)

lemma example_now: "time_Now example_world = \<lparr>Year = 2024, Month = March, Day = 15\<rparr>"
  by (simp add: example_world_def)

lemma example_miss:
  "redis_Get example_world (cacheKey (config example_env) (time_Now example_world)) =
     ([], Some redis_Nil)"
  by (simp add: redis_Get_def example_world_def)

lemma example_fetch:
  "http_Get example_world
     (api_url (WUndergroundKey (config example_env)) ''astronomy''
        (WUndergroundLocation (config example_env))) = Inr (Inr ''not json'')"
  by (simp add: example_world_def)

lemma example_decode:
  "json_Unmarshal example_lib ''not json'' zero_WUAstronomy =
     (zero_WUAstronomy, Some (Err ''invalid character''))"
  by (simp add: json_Unmarshal_invalid not_json_invalid) (simp add: example_lib_def)

subsection \<open>The cache key\<close>

text \<open>
  C2. For every prefix and every date, the cache key is the prefix, then
  \<open>weather:sun_phase:\<close>, then the year, the month and the day joined by \<open>-\<close>: it depends
  on the prefix and the date only. The year and the day are in decimal, the month is its
  English name: with prefix \<open>ph:\<close> on 15 March 2024 the key is
  \<open>ph:weather:sun_phase:2024-March-15\<close>.
\<close>

theorem cacheKey_format:
  "cacheKey cfg today =
     RedisPrefix cfg @ ''weather:sun_phase:'' @ Itoa (Year today) @ ''-'' @
     Month_String (Month today) @ ''-'' @ Itoa (Day today)
   \<and> cacheKey (cfg\<lparr>RedisPrefix := ''ph:''\<rparr>) \<lparr>Year = 2024, Month = March, Day = 15\<rparr> =
       ''ph:weather:sun_phase:2024-March-15''"
  by (simp add: cacheKey_def printString_def Itoa_def itoa_nat.simps digit_char_def)

subsection \<open>The error envelope\<close>




subsection \<open>Requests that are not GET\<close>

text \<open>
  C10. For every request whose method is not GET, the handler answers with status 405 and
  the error document whose detail is the method received (title \<open>Method Not Allowed\<close>,
  status \<open>405\<close>, no code), and leaves the world as it is. A POST gives detail \<open>POST\<close>.
\<close>

theorem handleSunPhase_method_not_allowed:
  assumes "Method request \<noteq> ''GET''"
  shows "handleSunPhase lib env request (newResponse, w) =
           Return ()
             (\<lparr>Header = [''Content-Type'' \<mapsto> jsonapi_MediaType], status = Some 405,
               sent = Map.empty,
               body = jsonapi_MarshalErrors lib
                        [\<lparr>Title = ''Method Not Allowed'', Detail = Method request,
                          Status = ''405'', Code = []\<rparr>]\<rparr>, w)"
  using assms by (simp add: handleSunPhase_def makeErrorResponse_new makeErrorObject_405)

theorem handleSunPhase_method_not_allowed_witness:
  "Method \<lparr>Method = ''POST''\<rparr> \<noteq> ''GET''
   \<and> handleSunPhase example_lib example_env \<lparr>Method = ''POST''\<rparr> (newResponse, example_world) =
       Return ()
         (\<lparr>Header = [''Content-Type'' \<mapsto> jsonapi_MediaType], status = Some 405,
           sent = Map.empty, body = ''error:405,Method Not Allowed,POST''\<rparr>, example_world)"
  using handleSunPhase_method_not_allowed
    [where request = "\<lparr>Method = ''POST''\<rparr>" and lib = example_lib and env = example_env
       and w = example_world]
  by (simp add: example_lib_def)

subsection \<open>Cache hit\<close>

text \<open>
  C3. For every GET request whose cache read succeeds, the handler sends the stored
  string as it is, with status 200 and the content type of jsonapi, and leaves the world
  unchanged: no upstream request, no cache write, no log line. The answer does not depend
  on the decoder or the serializers: the stored string is not parsed again.
\<close>

theorem handleSunPhase_cache_hit:
  assumes "Method request = ''GET''"
    and "redis_Get w (cacheKey (config env) (time_Now w)) = (cacheVal, None)"
  shows "handleSunPhase lib env request (newResponse, w) =
           Return ()
             (\<lparr>Header = [''Content-Type'' \<mapsto> jsonapi_MediaType], status = Some 200,
               sent = [''Content-Type'' \<mapsto> jsonapi_MediaType], body = cacheVal\<rparr>, w)"
  using assms by (rule handleSunPhase_hit)

theorem handleSunPhase_cache_hit_witness:
  "Method \<lparr>Method = ''GET''\<rparr> = ''GET''
   \<and> redis_Get
       (example_world\<lparr>redis_data :=
          [''ph:weather:sun_phase:2024-March-15'' \<mapsto> (''stored'', 168 * time_Hour)]\<rparr>)
       (cacheKey (config example_env) (time_Now example_world)) = (''stored'', None)
   \<and> handleSunPhase example_lib example_env \<lparr>Method = ''GET''\<rparr>
       (newResponse,
        example_world\<lparr>redis_data :=
          [''ph:weather:sun_phase:2024-March-15'' \<mapsto> (''stored'', 168 * time_Hour)]\<rparr>) =
       Return ()
         (\<lparr>Header = [''Content-Type'' \<mapsto> jsonapi_MediaType], status = Some 200,
           sent = [''Content-Type'' \<mapsto> jsonapi_MediaType], body = ''stored''\<rparr>,
          example_world\<lparr>redis_data :=
            [''ph:weather:sun_phase:2024-March-15'' \<mapsto> (''stored'', 168 * time_Hour)]\<rparr>)"
proof -
  let ?w = "example_world\<lparr>redis_data :=
              [''ph:weather:sun_phase:2024-March-15'' \<mapsto> (''stored'', 168 * time_Hour)]\<rparr>"
  have now: "time_Now ?w = \<lparr>Year = 2024, Month = March, Day = 15\<rparr>"
    by (simp add: example_world_def)
  have hit: "redis_Get ?w (cacheKey (config example_env) (time_Now ?w)) = (''stored'', None)"
    unfolding now example_key by (simp add: redis_Get_def example_world_def)
  have m: "Method \<lparr>Method = ''GET''\<rparr> = ''GET''" by simp
  show ?thesis
    using handleSunPhase_cache_hit [OF m hit, of example_lib] hit m now
    by (simp add: example_world_def)
qed

subsection \<open>Transport failures\<close>

text \<open>
  C6. When the upstream GET fails, or reading its body fails, \<open>getWUApiRepose\<close> logs the
  error with \<open>log.Fatal\<close> and the process ends there: the call does not return. Hence
  \<open>getWUAstronomy\<close> never returns an error, whatever the world, and a GET request that
  does not hit the cache ends the process with the response untouched: the handler's
  branch that answers 500 for a failed fetch is not reached.
\<close>

theorem transport_failure_is_fatal:
  assumes "url = api_url (WUndergroundKey (config env)) ''astronomy''
                   (WUndergroundLocation (config env))"
    and "http_Get w url = Inl e \<or> http_Get w url = Inr (Inl e)"
    and "Method request = ''GET''"
    and "redis_Get w (cacheKey (config env) (time_Now w)) = (v, Some ce)"
  shows "getWUApiRepose w (WUndergroundKey (config env)) ''astronomy''
             (WUndergroundLocation (config env)) =
           Exit (Fatal_error e) (w\<lparr>requests := requests w @ [url]\<rparr>)
       \<and> (\<forall>lib' w' k f l a e' w''. getWUAstronomy lib' w' k f l \<noteq> Return (a, Some e') w'')
       \<and> handleSunPhase lib env request (newResponse, w) =
           Exit (Fatal_error e)
             (newResponse,
              (if ce \<noteq> redis_Nil then log_Println w ''Error reading cache: %s'' ce else w)
                \<lparr>requests := requests w @ [url]\<rparr>)"
proof -
  let ?w1 = "if ce \<noteq> redis_Nil then log_Println w ''Error reading cache: %s'' ce else w"
  have g: "http_Get ?w1 url = Inl e \<or> http_Get ?w1 url = Inr (Inl e)"
    using assms(2) by simp
  have r: "requests ?w1 = requests w" by simp
  have a: "getWUAstronomy lib ?w1 (WUndergroundKey (config env)) ''astronomy''
             (WUndergroundLocation (config env)) =
           Exit (Fatal_error e) (?w1\<lparr>requests := requests w @ [url]\<rparr>)"
    using getWUAstronomy_fatal [of ?w1 _ _ _ e lib] g r unfolding assms(1) by simp
  have h: "handleSunPhase lib env request (newResponse, w) =
           Exit (Fatal_error e) (newResponse, ?w1\<lparr>requests := requests w @ [url]\<rparr>)"
    unfolding handleSunPhase_no_hit [OF assms(3,4)] a by simp
  show ?thesis
    using getWUApiRepose_fatal [of w _ _ _ e] assms(1,2) h getWUAstronomy_no_error
    by simp
qed

theorem transport_failure_is_fatal_witness:
  "http_Get (example_world\<lparr>http_Get := \<lambda>url. Inl (Err ''connection refused'')\<rparr>)
       ''https://api.wunderground.com/api/k/astronomy/q/l.json'' =
     Inl (Err ''connection refused'')
   \<and> redis_Get (example_world\<lparr>http_Get := \<lambda>url. Inl (Err ''connection refused'')\<rparr>)
       (cacheKey (config example_env) (time_Now example_world)) = ([], Some redis_Nil)
   \<and> handleSunPhase example_lib example_env \<lparr>Method = ''GET''\<rparr>
       (newResponse, example_world\<lparr>http_Get := \<lambda>url. Inl (Err ''connection refused'')\<rparr>) =
       Exit (Fatal_error (Err ''connection refused''))
         (newResponse,
          example_world\<lparr>http_Get := \<lambda>url. Inl (Err ''connection refused''),
            requests := [''https://api.wunderground.com/api/k/astronomy/q/l.json'']\<rparr>)"
proof -
  let ?w = "example_world\<lparr>http_Get := \<lambda>url. Inl (Err ''connection refused'')\<rparr>"
  let ?url = "''https://api.wunderground.com/api/k/astronomy/q/l.json''"
  have u: "?url = api_url (WUndergroundKey (config example_env)) ''astronomy''
                    (WUndergroundLocation (config example_env))"
    by (simp add: example_url)
  have g: "http_Get ?w ?url = Inl (Err ''connection refused'')
             \<or> http_Get ?w ?url = Inr (Inl (Err ''connection refused''))"
    by simp
  have m: "Method \<lparr>Method = ''GET''\<rparr> = ''GET''" by simp
  have miss: "redis_Get ?w (cacheKey (config example_env) (time_Now ?w)) = ([], Some redis_Nil)"
    by (simp add: redis_Get_def example_world_def)
  have now: "time_Now ?w = time_Now example_world" by simp
  show ?thesis
    using transport_failure_is_fatal [OF u g m miss, of example_lib] miss
    by (simp add: example_world_def)
qed


subsection \<open>Cache miss\<close>

text \<open>
  C8. On a GET request that does not hit the cache, when the upstream body has been read
  and the record serialized to the document \<open>p\<close>, the handler sends one write to the
  cache: \<open>p\<close> itself, under the cache key, with a time to live of 168 hours, and it
  answers with \<open>p\<close> as body. When the write succeeds the cache holds \<open>p\<close> under the key,
  and a later GET on the same date that reads this cache without error is answered with
  the very same response, body \<open>p\<close> included, and changes nothing.
\<close>

theorem cache_write_round_trip:
  assumes "Method request = ''GET''"
    and "redis_Get w (cacheKey (config env) (time_Now w)) = (v, Some ce)"
    and "http_Get w (api_url (WUndergroundKey (config env)) ''astronomy''
                       (WUndergroundLocation (config env))) = Inr (Inr data)"
    and "jsonapi_MarshalPayload lib
           (responseObj (cacheKey (config env) (time_Now w))
              (fst (json_Unmarshal lib data zero_WUAstronomy))) = Inr p"
  shows "\<exists>r w'. handleSunPhase lib env request (newResponse, w) = Return () (r, w')
         \<and> body r = p
         \<and> redis_writes w' =
             redis_writes w @ [(cacheKey (config env) (time_Now w), p, 168 * time_Hour)]
         \<and> (redis_Set_fault w = None \<longrightarrow>
              redis_data w' (cacheKey (config env) (time_Now w)) = Some (p, 168 * time_Hour)
              \<and> (\<forall>w2. redis_data w2 = redis_data w' \<and> redis_Get_fault w2 = None
                        \<and> time_Now w2 = time_Now w \<longrightarrow>
                     handleSunPhase lib env request (newResponse, w2) = Return () (r, w2)))"
proof -
  let ?key = "cacheKey (config env) (time_Now w)"
  let ?r = "\<lparr>Header = [''Content-Type'' \<mapsto> jsonapi_MediaType], status = Some 200,
             sent = [''Content-Type'' \<mapsto> jsonapi_MediaType], body = p\<rparr>"
  from handleSunPhase_miss [OF assms(1-4)]
  obtain w' where h: "handleSunPhase lib env request (newResponse, w) = Return () (?r, w')
         \<and> redis_writes w' = redis_writes w @ [(?key, p, 168 * time_Hour)]
         \<and> requests w' =
             requests w @ [api_url (WUndergroundKey (config env)) ''astronomy''
                             (WUndergroundLocation (config env))]
         \<and> (redis_Set_fault w = None \<longrightarrow>
              redis_data w' = (redis_data w)(?key \<mapsto> (p, 168 * time_Hour)))" ..
  note fst_run = conjunct1 [OF h]
  note wr = conjunct1 [OF conjunct2 [OF h]]
  note stored = conjunct2 [OF conjunct2 [OF conjunct2 [OF h]]]
  have again: "handleSunPhase lib env request (newResponse, w2) = Return () (?r, w2)"
    if "redis_Set_fault w = None" "redis_data w2 = redis_data w'" "redis_Get_fault w2 = None"
      "time_Now w2 = time_Now w"
    for w2
  proof -
    have d: "redis_data w2 = (redis_data w)(?key \<mapsto> (p, 168 * time_Hour))"
      using that(1,2) stored by simp
    have "redis_Get w2 (cacheKey (config env) (time_Now w2)) = (p, None)"
      unfolding that(4) by (simp add: redis_Get_def that(3) d)
    then show ?thesis
      by (rule handleSunPhase_hit [OF assms(1)])
  qed
  show ?thesis
  proof (rule exI [of _ ?r], rule exI [of _ w'], intro conjI impI allI)
    show "handleSunPhase lib env request (newResponse, w) = Return () (?r, w')"
      by (rule fst_run)
    show "body ?r = p"
      by simp
    show "redis_writes w' = redis_writes w @ [(?key, p, 168 * time_Hour)]"
      by (rule wr)
    show "redis_data w' ?key = Some (p, 168 * time_Hour)" if "redis_Set_fault w = None"
      using that stored by simp
    show "handleSunPhase lib env request (newResponse, w2) = Return () (?r, w2)"
      if "redis_Set_fault w = None"
        and "redis_data w2 = redis_data w' \<and> redis_Get_fault w2 = None
               \<and> time_Now w2 = time_Now w"
      for w2
      using that again [of w2] by blast
  qed
qed

theorem cache_write_round_trip_witness:
  "redis_Get example_world (cacheKey (config example_env) (time_Now example_world)) =
     ([], Some redis_Nil)
   \<and> redis_Set_fault example_world = None
   \<and> (\<exists>r w'. handleSunPhase example_lib example_env \<lparr>Method = ''GET''\<rparr>
                 (newResponse, example_world) = Return () (r, w')
         \<and> body r = ''data:ph:weather:sun_phase:2024-March-15,0:0,0:0''
         \<and> redis_writes w' =
             [(''ph:weather:sun_phase:2024-March-15'',
               ''data:ph:weather:sun_phase:2024-March-15,0:0,0:0'', 168 * time_Hour)]
         \<and> redis_data w' ''ph:weather:sun_phase:2024-March-15'' =
             Some (''data:ph:weather:sun_phase:2024-March-15,0:0,0:0'', 168 * time_Hour)
         \<and> (\<forall>w2. redis_data w2 = redis_data w' \<and> redis_Get_fault w2 = None
                   \<and> time_Now w2 = \<lparr>Year = 2024, Month = March, Day = 15\<rparr> \<longrightarrow>
                handleSunPhase example_lib example_env \<lparr>Method = ''GET''\<rparr> (newResponse, w2) =
                  Return () (r, w2)))"
proof -
  have m: "Method \<lparr>Method = ''GET''\<rparr> = ''GET''" by simp
  have p: "jsonapi_MarshalPayload example_lib
             (responseObj (cacheKey (config example_env) (time_Now example_world))
                (fst (json_Unmarshal example_lib ''not json'' zero_WUAstronomy))) =
           Inr (''data:'' @ cacheKey (config example_env) (time_Now example_world) @ '',0:0,0:0'')"
    unfolding example_decode fst_conv
    by (simp add: responseObj_zero example_payload)
  have f: "redis_Set_fault example_world = None"
    by (simp add: example_world_def)
  have w: "redis_writes example_world = []"
    by (simp add: example_world_def)
  note t = cache_write_round_trip [OF m example_miss example_fetch p]
  have c: "\<exists>r w'. handleSunPhase example_lib example_env \<lparr>Method = ''GET''\<rparr>
                 (newResponse, example_world) = Return () (r, w')
         \<and> body r = ''data:ph:weather:sun_phase:2024-March-15,0:0,0:0''
         \<and> redis_writes w' =
             [(''ph:weather:sun_phase:2024-March-15'',
               ''data:ph:weather:sun_phase:2024-March-15,0:0,0:0'', 168 * time_Hour)]
         \<and> redis_data w' ''ph:weather:sun_phase:2024-March-15'' =
             Some (''data:ph:weather:sun_phase:2024-March-15,0:0,0:0'', 168 * time_Hour)
         \<and> (\<forall>w2. redis_data w2 = redis_data w' \<and> redis_Get_fault w2 = None
                   \<and> time_Now w2 = \<lparr>Year = 2024, Month = March, Day = 15\<rparr> \<longrightarrow>
                handleSunPhase example_lib example_env \<lparr>Method = ''GET''\<rparr> (newResponse, w2) =
                  Return () (r, w2))"
    using t unfolding example_now example_key w f
    by (simp only: append.simps simp_thms)
  show ?thesis
    by (intro conjI) (rule example_miss f c)+
qed


subsection \<open>Bodies that are not JSON\<close>

text \<open>
  C5, amended. For every upstream response whose body is not well-formed JSON, the client
  returns no error and yields the zero-valued structure, with empty sunrise and sunset
  fields, rather than failing: \<open>json.Unmarshal\<close> returns its syntax error without
  touching the target, and the client drops that error. The handler then builds the
  record with all four integers zero (\<open>Atoi\<close> of the empty string is 0); when its
  serialization succeeds, the handler answers 200 with it and sends it to the cache.
\<close>

theorem malformed_body_gives_zero_record:
  assumes "http_Get w (api_url key feature location) = Inr (Inr data)"
    and "\<not> json_Valid data"
  shows "getWUAstronomy lib w key feature location =
           Return
             (\<lparr>Response = [], MoonPhase = [],
               SunPhase = \<lparr>Sunrise = \<lparr>Hour = [], Minute = []\<rparr>,
                           Sunset = \<lparr>Hour = [], Minute = []\<rparr>\<rparr>\<rparr>, None)
             (w\<lparr>requests := requests w @ [api_url key feature location]\<rparr>)
       \<and> responseObj k
           \<lparr>Response = [], MoonPhase = [],
               SunPhase = \<lparr>Sunrise = \<lparr>Hour = [], Minute = []\<rparr>,
                           Sunset = \<lparr>Hour = [], Minute = []\<rparr>\<rparr>\<rparr> =
           \<lparr>ResponseID = k, SunriseM = 0, SunriseH = 0, SunsetM = 0, SunsetH = 0\<rparr>
       \<and> (\<forall>env request v ce p.
             Method request = ''GET''
             \<and> WUndergroundKey (config env) = key \<and> feature = ''astronomy''
             \<and> WUndergroundLocation (config env) = location
             \<and> redis_Get w (cacheKey (config env) (time_Now w)) = (v, Some ce)
             \<and> jsonapi_MarshalPayload lib
                 \<lparr>ResponseID = cacheKey (config env) (time_Now w), SunriseM = 0, SunriseH = 0,
                  SunsetM = 0, SunsetH = 0\<rparr> = Inr p \<longrightarrow>
             (\<exists>w'. handleSunPhase lib env request (newResponse, w) =
                     Return ()
                       (\<lparr>Header = [''Content-Type'' \<mapsto> jsonapi_MediaType],
                         status = Some 200,
                         sent = [''Content-Type'' \<mapsto> jsonapi_MediaType], body = p\<rparr>, w')
                   \<and> redis_writes w' =
                       redis_writes w @
                       [(cacheKey (config env) (time_Now w), p, 168 * time_Hour)]))"
proof -
  have a: "fst (json_Unmarshal lib data zero_WUAstronomy) = zero_WUAstronomy"
    by (simp add: json_Unmarshal_invalid [OF assms(2)])
  have z: "responseObj k' zero_WUAstronomy =
           \<lparr>ResponseID = k', SunriseM = 0, SunriseH = 0, SunsetM = 0, SunsetH = 0\<rparr>" for k'
    by (rule responseObj_zero) simp
  have g: "getWUAstronomy lib w key feature location =
           Return (zero_WUAstronomy, None)
             (w\<lparr>requests := requests w @ [api_url key feature location]\<rparr>)"
    using getWUAstronomy_ok [OF assms(1), of lib] unfolding a .
  have h: "\<exists>w'. handleSunPhase lib env request (newResponse, w) =
                  Return ()
                    (\<lparr>Header = [''Content-Type'' \<mapsto> jsonapi_MediaType], status = Some 200,
                      sent = [''Content-Type'' \<mapsto> jsonapi_MediaType], body = p\<rparr>, w')
                \<and> redis_writes w' =
                    redis_writes w @ [(cacheKey (config env) (time_Now w), p, 168 * time_Hour)]"
    if get: "Method request = ''GET''"
      and key: "WUndergroundKey (config env) = key" and feat: "feature = ''astronomy''"
      and loc: "WUndergroundLocation (config env) = location"
      and miss: "redis_Get w (cacheKey (config env) (time_Now w)) = (v, Some ce)"
      and ser: "jsonapi_MarshalPayload lib
                 \<lparr>ResponseID = cacheKey (config env) (time_Now w), SunriseM = 0, SunriseH = 0,
                  SunsetM = 0, SunsetH = 0\<rparr> = Inr p"
    for env request v ce p
  proof -
    let ?key = "cacheKey (config env) (time_Now w)"
    have f: "http_Get w (api_url (WUndergroundKey (config env)) ''astronomy''
                           (WUndergroundLocation (config env))) = Inr (Inr data)"
      using assms(1) unfolding key feat loc .
    have m: "jsonapi_MarshalPayload lib
               (responseObj ?key (fst (json_Unmarshal lib data zero_WUAstronomy))) = Inr p"
      unfolding a z by (rule ser)
    from handleSunPhase_miss [OF get miss f m]
    obtain w' where x: "handleSunPhase lib env request (newResponse, w) =
           Return ()
             (\<lparr>Header = [''Content-Type'' \<mapsto> jsonapi_MediaType], status = Some 200,
               sent = [''Content-Type'' \<mapsto> jsonapi_MediaType], body = p\<rparr>, w')
         \<and> redis_writes w' = redis_writes w @ [(?key, p, 168 * time_Hour)]
         \<and> requests w' =
             requests w @ [api_url (WUndergroundKey (config env)) ''astronomy''
                             (WUndergroundLocation (config env))]
         \<and> (redis_Set_fault w = None \<longrightarrow>
              redis_data w' = (redis_data w)(?key \<mapsto> (p, 168 * time_Hour)))" ..
    show ?thesis
      by (rule exI [of _ w'])
         (rule conjI [OF conjunct1 [OF x] conjunct1 [OF conjunct2 [OF x]]])
  qed
  show ?thesis
  proof (intro conjI allI impI)
    show "getWUAstronomy lib w key feature location =
           Return
             (\<lparr>Response = [], MoonPhase = [],
               SunPhase = \<lparr>Sunrise = \<lparr>Hour = [], Minute = []\<rparr>,
                           Sunset = \<lparr>Hour = [], Minute = []\<rparr>\<rparr>\<rparr>, None)
             (w\<lparr>requests := requests w @ [api_url key feature location]\<rparr>)"
      using g unfolding zero_WUAstronomy_def .
    show "responseObj k
           \<lparr>Response = [], MoonPhase = [],
               SunPhase = \<lparr>Sunrise = \<lparr>Hour = [], Minute = []\<rparr>,
                           Sunset = \<lparr>Hour = [], Minute = []\<rparr>\<rparr>\<rparr> =
           \<lparr>ResponseID = k, SunriseM = 0, SunriseH = 0, SunsetM = 0, SunsetH = 0\<rparr>"
      using z [of k] unfolding zero_WUAstronomy_def .
    show "\<exists>w'. handleSunPhase lib env request (newResponse, w) =
                  Return ()
                    (\<lparr>Header = [''Content-Type'' \<mapsto> jsonapi_MediaType], status = Some 200,
                      sent = [''Content-Type'' \<mapsto> jsonapi_MediaType], body = p\<rparr>, w')
                \<and> redis_writes w' =
                    redis_writes w @ [(cacheKey (config env) (time_Now w), p, 168 * time_Hour)]"
      if "Method request = ''GET''
             \<and> WUndergroundKey (config env) = key \<and> feature = ''astronomy''
             \<and> WUndergroundLocation (config env) = location
             \<and> redis_Get w (cacheKey (config env) (time_Now w)) = (v, Some ce)
             \<and> jsonapi_MarshalPayload lib
                 \<lparr>ResponseID = cacheKey (config env) (time_Now w), SunriseM = 0, SunriseH = 0,
                  SunsetM = 0, SunsetH = 0\<rparr> = Inr p"
      for env request v ce p
      using that h [of request env v ce p] by blast
  qed
qed

theorem malformed_body_gives_zero_record_witness:
  "http_Get example_world (api_url ''k'' ''astronomy'' ''l'') = Inr (Inr ''not json'')
   \<and> \<not> json_Valid ''not json''
   \<and> getWUAstronomy example_lib example_world ''k'' ''astronomy'' ''l'' =
       Return
         (\<lparr>Response = [], MoonPhase = [],
               SunPhase = \<lparr>Sunrise = \<lparr>Hour = [], Minute = []\<rparr>,
                           Sunset = \<lparr>Hour = [], Minute = []\<rparr>\<rparr>\<rparr>, None)
         (example_world\<lparr>requests :=
            [''https://api.wunderground.com/api/k/astronomy/q/l.json'']\<rparr>)
   \<and> (\<exists>w'. handleSunPhase example_lib example_env \<lparr>Method = ''GET''\<rparr>
               (newResponse, example_world) =
             Return ()
               (\<lparr>Header = [''Content-Type'' \<mapsto> jsonapi_MediaType], status = Some 200,
                 sent = [''Content-Type'' \<mapsto> jsonapi_MediaType],
                 body = ''data:ph:weather:sun_phase:2024-March-15,0:0,0:0''\<rparr>, w')
           \<and> redis_writes w' =
               [(''ph:weather:sun_phase:2024-March-15'',
                 ''data:ph:weather:sun_phase:2024-March-15,0:0,0:0'', 168 * time_Hour)])"
proof -
  have f: "http_Get example_world (api_url ''k'' ''astronomy'' ''l'') = Inr (Inr ''not json'')"
    by (simp add: example_world_def)
  note t = malformed_body_gives_zero_record [OF f not_json_invalid, of example_lib]
  have u: "api_url ''k'' ''astronomy'' ''l'' =
             ''https://api.wunderground.com/api/k/astronomy/q/l.json''"
    by (simp add: api_url_def)
  have w: "requests example_world = []" "redis_writes example_world = []"
    by (simp_all add: example_world_def)
  have c1: "getWUAstronomy example_lib example_world ''k'' ''astronomy'' ''l'' =
       Return
         (\<lparr>Response = [], MoonPhase = [],
               SunPhase = \<lparr>Sunrise = \<lparr>Hour = [], Minute = []\<rparr>,
                           Sunset = \<lparr>Hour = [], Minute = []\<rparr>\<rparr>\<rparr>, None)
         (example_world\<lparr>requests :=
            [''https://api.wunderground.com/api/k/astronomy/q/l.json'']\<rparr>)"
    using conjunct1 [OF t] unfolding u w by (simp only: append.simps)
  have pre: "Method \<lparr>Method = ''GET''\<rparr> = ''GET''
             \<and> WUndergroundKey (config example_env) = ''k'' \<and> ''astronomy'' = ''astronomy''
             \<and> WUndergroundLocation (config example_env) = ''l''
             \<and> redis_Get example_world (cacheKey (config example_env) (time_Now example_world)) =
                 ([], Some redis_Nil)
             \<and> jsonapi_MarshalPayload example_lib
                 \<lparr>ResponseID = cacheKey (config example_env) (time_Now example_world),
                  SunriseM = 0, SunriseH = 0, SunsetM = 0, SunsetH = 0\<rparr> =
                 Inr (''data:'' @ cacheKey (config example_env) (time_Now example_world)
                      @ '',0:0,0:0'')"
    using example_miss example_payload by (simp add: example_env_def)
  note t3 = conjunct2 [OF conjunct2 [OF t], rule_format, OF pre]
  have c2: "\<exists>w'. handleSunPhase example_lib example_env \<lparr>Method = ''GET''\<rparr>
               (newResponse, example_world) =
             Return ()
               (\<lparr>Header = [''Content-Type'' \<mapsto> jsonapi_MediaType], status = Some 200,
                 sent = [''Content-Type'' \<mapsto> jsonapi_MediaType],
                 body = ''data:ph:weather:sun_phase:2024-March-15,0:0,0:0''\<rparr>, w')
           \<and> redis_writes w' =
               [(''ph:weather:sun_phase:2024-March-15'',
                 ''data:ph:weather:sun_phase:2024-March-15,0:0,0:0'', 168 * time_Hour)]"
    using t3 unfolding example_now example_key w by (simp only: append.simps)
  show ?thesis
    by (intro conjI) (rule f not_json_invalid c1 c2)+
qed

text \<open>
  As stated, for every body that is not well-formed JSON of the expected shape, the claim
  fails: the body of the wrong shape is well-formed, the decoder fails on it after it has
  stored the hour, the client returns no error, and the sunrise hour of the structure is
  \<open>6\<close>, and so is that of the record.
\<close>

theorem wrong_shape_body_counterexample:
  "json_Valid wrong_shape_body
   \<and> getWUAstronomy skipping_lib
     (example_world\<lparr>http_Get := \<lambda>url. Inr (Inr wrong_shape_body)\<rparr>)
     ''k'' ''astronomy'' ''l'' =
     Return
       (\<lparr>Response = [], MoonPhase = [],
         SunPhase = \<lparr>Sunrise = \<lparr>Hour = ''6'', Minute = []\<rparr>,
                     Sunset = \<lparr>Hour = [], Minute = []\<rparr>\<rparr>\<rparr>, None)
       (example_world\<lparr>http_Get := \<lambda>url. Inr (Inr wrong_shape_body),
          requests := [''https://api.wunderground.com/api/k/astronomy/q/l.json'']\<rparr>)
   \<and> responseObj ''ph:weather:sun_phase:2024-March-15''
       \<lparr>Response = [], MoonPhase = [],
        SunPhase = \<lparr>Sunrise = \<lparr>Hour = ''6'', Minute = []\<rparr>,
                    Sunset = \<lparr>Hour = [], Minute = []\<rparr>\<rparr>\<rparr> =
       \<lparr>ResponseID = ''ph:weather:sun_phase:2024-March-15'', SunriseM = 0, SunriseH = 6,
        SunsetM = 0, SunsetH = 0\<rparr>"
proof -
  have a: "Atoi ''6'' = (6, None)"
    by (simp add: Atoi_def digit_val_def maxUint64_def)
  have d: "json_Unmarshal skipping_lib wrong_shape_body zero_WUAstronomy =
      (\<lparr>Response = [], MoonPhase = [],
        SunPhase = \<lparr>Sunrise = \<lparr>Hour = ''6'', Minute = []\<rparr>,
                    Sunset = \<lparr>Hour = [], Minute = []\<rparr>\<rparr>\<rparr>,
       Some (Err ''json: cannot unmarshal number into Go value of type string''))"
    by (simp add: json_Unmarshal_def wrong_shape_body_valid skipping_lib_def
        zero_WUAstronomy_def)
  have f: "http_Get (example_world\<lparr>http_Get := \<lambda>url. Inr (Inr wrong_shape_body)\<rparr>)
             (api_url ''k'' ''astronomy'' ''l'') = Inr (Inr wrong_shape_body)"
    by simp
  have g: "getWUAstronomy skipping_lib
     (example_world\<lparr>http_Get := \<lambda>url. Inr (Inr wrong_shape_body)\<rparr>)
     ''k'' ''astronomy'' ''l'' =
     Return
       (\<lparr>Response = [], MoonPhase = [],
         SunPhase = \<lparr>Sunrise = \<lparr>Hour = ''6'', Minute = []\<rparr>,
                     Sunset = \<lparr>Hour = [], Minute = []\<rparr>\<rparr>\<rparr>, None)
       (example_world\<lparr>http_Get := \<lambda>url. Inr (Inr wrong_shape_body),
          requests := [''https://api.wunderground.com/api/k/astronomy/q/l.json'']\<rparr>)"
    unfolding getWUAstronomy_ok [OF f] d
    by (simp add: api_url_def example_world_def)
  have r: "responseObj ''ph:weather:sun_phase:2024-March-15''
       \<lparr>Response = [], MoonPhase = [],
        SunPhase = \<lparr>Sunrise = \<lparr>Hour = ''6'', Minute = []\<rparr>,
                    Sunset = \<lparr>Hour = [], Minute = []\<rparr>\<rparr>\<rparr> =
       \<lparr>ResponseID = ''ph:weather:sun_phase:2024-March-15'', SunriseM = 0, SunriseH = 6,
        SunsetM = 0, SunsetH = 0\<rparr>"
    by (simp add: responseObj_def a Atoi_Nil)
  show ?thesis
    by (intro conjI) (rule wrong_shape_body_valid g r)+
qed

subsection \<open>Cache read errors\<close>

text \<open>
  C9. For every GET request whose cache read fails with an error other than
  \<open>redis.Nil\<close>, the handler logs the error and then does what it does on a miss: its
  outcome is the outcome of the same request in the world where the line has been logged
  and the read reports \<open>redis.Nil\<close> (up to the read fault itself, which is a parameter
  of the world). In particular it requests the upstream address, and its log continues
  the log with the line \<open>Error reading cache\<close>.
\<close>

theorem cache_read_error_is_a_miss:
  assumes "Method request = ''GET''"
    and "redis_Get w (cacheKey (config env) (time_Now w)) = (v, Some e)"
    and "e \<noteq> redis_Nil"
    and "redis_Get (w\<lparr>redis_Get_fault := g\<rparr>) (cacheKey (config env) (time_Now w)) =
           (v', Some redis_Nil)"
  shows "handleSunPhase lib env request (newResponse, w) =
           map_world (\<lambda>x. x\<lparr>redis_Get_fault := redis_Get_fault w\<rparr>)
             (handleSunPhase lib env request
                (newResponse,
                 (log_Println w ''Error reading cache: %s'' e)\<lparr>redis_Get_fault := g\<rparr>))
       \<and> requests (world_of (handleSunPhase lib env request (newResponse, w))) =
           requests w @ [api_url (WUndergroundKey (config env)) ''astronomy''
                           (WUndergroundLocation (config env))]
       \<and> (\<exists>rest. logged (world_of (handleSunPhase lib env request (newResponse, w))) =
                   logged w @ [Println ''Error reading cache: %s'' e] @ rest)"
proof -
  let ?wl = "log_Println w ''Error reading cache: %s'' e"
  let ?wm = "?wl\<lparr>redis_Get_fault := g\<rparr>"
  let ?key = "cacheKey (config env) (time_Now w)"
  let ?k = "WUndergroundKey (config env)"
  let ?l = "WUndergroundLocation (config env)"
  let ?restore = "\<lambda>x. x\<lparr>redis_Get_fault := redis_Get_fault w\<rparr>"
  let ?a = "getWUAstronomy lib ?wl ?k ''astronomy'' ?l"
  have now: "time_Now ?wm = time_Now w"
    by (simp add: log_Println_def)
  have missm: "redis_Get ?wm (cacheKey (config env) (time_Now ?wm)) = (v', Some redis_Nil)"
    using assms(4) redis_Get_cong [of ?wm "w\<lparr>redis_Get_fault := g\<rparr>" ?key]
    unfolding now by (simp add: log_Println_def)
  have A: "handleSunPhase lib env request (newResponse, w) =
      (case ?a of
         Exit fatal w2 \<Rightarrow> Exit fatal (newResponse, w2)
       | Panic panic w2 \<Rightarrow> Panic panic (newResponse, w2)
       | Return fetched w2 \<Rightarrow> handleSunPhase_fetched lib ?key fetched (newResponse, w2))"
    unfolding handleSunPhase_no_hit [OF assms(1,2)] using assms(3) by simp
  have B: "handleSunPhase lib env request (newResponse, ?wm) =
      (case getWUAstronomy lib ?wm ?k ''astronomy'' ?l of
         Exit fatal w2 \<Rightarrow> Exit fatal (newResponse, w2)
       | Panic panic w2 \<Rightarrow> Panic panic (newResponse, w2)
       | Return fetched w2 \<Rightarrow> handleSunPhase_fetched lib ?key fetched (newResponse, w2))"
    unfolding handleSunPhase_no_hit [OF assms(1) missm] now by simp
  have fault: "redis_Get_fault ?wl = redis_Get_fault w"
    by (simp add: log_Println_def)
  have BA: "handleSunPhase lib env request (newResponse, ?wm) =
              map_world (\<lambda>x. x\<lparr>redis_Get_fault := g\<rparr>)
                (handleSunPhase lib env request (newResponse, w))"
    unfolding A B getWUAstronomy_Get_fault
    by (cases ?a) (simp_all add: handleSunPhase_fetched_Get_fault)
  have keep: "redis_Get_fault (world_of (handleSunPhase lib env request (newResponse, w))) =
                redis_Get_fault w"
    unfolding A using getWUAstronomy_fault [of lib ?wl ?k "''astronomy''" ?l] fault
    by (cases ?a) (simp_all add: fault_fetched)
  have eq: "handleSunPhase lib env request (newResponse, w) =
           map_world ?restore (handleSunPhase lib env request (newResponse, ?wm))"
  proof -
    have "map_world ?restore (handleSunPhase lib env request (newResponse, ?wm)) =
          map_world ?restore (handleSunPhase lib env request (newResponse, w))"
      unfolding BA map_world_comp by simp
    also have "\<dots> = handleSunPhase lib env request (newResponse, w)"
      by (rule map_world_id) (simp add: keep [symmetric])
    finally show ?thesis by (rule sym)
  qed
  have req: "requests (world_of (handleSunPhase lib env request (newResponse, w))) =
           requests w @ [api_url ?k ''astronomy'' ?l]"
    unfolding A using getWUAstronomy_requests [of lib ?wl ?k "''astronomy''" ?l]
    by (cases ?a) (simp_all add: requests_fetched)
  have lg: "\<exists>rest. logged (world_of (handleSunPhase lib env request (newResponse, w))) =
                   logged w @ [Println ''Error reading cache: %s'' e] @ rest"
  proof (cases ?a)
    case (Exit fatal w1)
    then show ?thesis
      unfolding A using getWUAstronomy_logged [of lib ?wl ?k "''astronomy''" ?l]
      by (simp add: log_Println_def)
  next
    case (Panic panic w1)
    then show ?thesis
      unfolding A using getWUAstronomy_logged [of lib ?wl ?k "''astronomy''" ?l]
      by (simp add: log_Println_def)
  next
    case (Return fetched w1)
    obtain rest where
      "logged (world_of (handleSunPhase_fetched lib ?key fetched (newResponse, w1))) =
         logged w1 @ rest"
      using logged_fetched by blast
    then show ?thesis
      unfolding A using Return getWUAstronomy_logged [of lib ?wl ?k "''astronomy''" ?l]
      by (simp add: log_Println_def)
  qed
  show ?thesis
    by (intro conjI) (rule eq req lg)+
qed

theorem cache_read_error_is_a_miss_witness:
  "redis_Get (example_world\<lparr>redis_Get_fault := Some (Err ''i/o timeout'')\<rparr>)
     (cacheKey (config example_env) (time_Now example_world)) = ([], Some (Err ''i/o timeout''))
   \<and> Err ''i/o timeout'' \<noteq> redis_Nil
   \<and> redis_Get example_world (cacheKey (config example_env) (time_Now example_world)) =
       ([], Some redis_Nil)
   \<and> handleSunPhase example_lib example_env \<lparr>Method = ''GET''\<rparr>
       (newResponse, example_world\<lparr>redis_Get_fault := Some (Err ''i/o timeout'')\<rparr>) =
       map_world (\<lambda>x. x\<lparr>redis_Get_fault := Some (Err ''i/o timeout'')\<rparr>)
         (handleSunPhase example_lib example_env \<lparr>Method = ''GET''\<rparr>
            (newResponse,
             example_world\<lparr>logged := [Println ''Error reading cache: %s'' (Err ''i/o timeout'')]\<rparr>))
   \<and> requests (world_of (handleSunPhase example_lib example_env \<lparr>Method = ''GET''\<rparr>
         (newResponse, example_world\<lparr>redis_Get_fault := Some (Err ''i/o timeout'')\<rparr>))) =
       [''https://api.wunderground.com/api/k/astronomy/q/l.json'']"
proof -
  let ?w = "example_world\<lparr>redis_Get_fault := Some (Err ''i/o timeout'')\<rparr>"
  have m: "Method \<lparr>Method = ''GET''\<rparr> = ''GET''" by simp
  have now: "time_Now ?w = time_Now example_world" by simp
  have r: "redis_Get ?w (cacheKey (config example_env) (time_Now ?w)) =
             ([], Some (Err ''i/o timeout''))"
    by (simp add: redis_Get_def)
  have n: "Err ''i/o timeout'' \<noteq> redis_Nil" by simp
  have restore: "?w\<lparr>redis_Get_fault := None\<rparr> = example_world"
    by (simp add: example_world_def)
  have miss: "redis_Get (?w\<lparr>redis_Get_fault := None\<rparr>)
                (cacheKey (config example_env) (time_Now ?w)) = ([], Some redis_Nil)"
    unfolding restore now by (rule example_miss)
  have l: "(log_Println ?w ''Error reading cache: %s'' (Err ''i/o timeout''))
             \<lparr>redis_Get_fault := None\<rparr> =
           example_world\<lparr>logged := [Println ''Error reading cache: %s'' (Err ''i/o timeout'')]\<rparr>"
    by (simp add: log_Println_def example_world_def)
  have q: "requests ?w = []" by (simp add: example_world_def)
  note t = cache_read_error_is_a_miss [OF m r n miss, of example_lib]
  have c1: "handleSunPhase example_lib example_env \<lparr>Method = ''GET''\<rparr> (newResponse, ?w) =
       map_world (\<lambda>x. x\<lparr>redis_Get_fault := Some (Err ''i/o timeout'')\<rparr>)
         (handleSunPhase example_lib example_env \<lparr>Method = ''GET''\<rparr>
            (newResponse,
             example_world\<lparr>logged := [Println ''Error reading cache: %s'' (Err ''i/o timeout'')]\<rparr>))"
    using conjunct1 [OF t] unfolding l by simp
  have c2: "requests (world_of (handleSunPhase example_lib example_env \<lparr>Method = ''GET''\<rparr>
              (newResponse, ?w))) =
            [''https://api.wunderground.com/api/k/astronomy/q/l.json'']"
    using conjunct1 [OF conjunct2 [OF t]] unfolding example_url q by simp
  have r': "redis_Get ?w (cacheKey (config example_env) (time_Now example_world)) =
              ([], Some (Err ''i/o timeout''))"
    using r by simp
  show ?thesis
    by (intro conjI) (rule r' n example_miss c1 c2)+
qed


subsection \<open>A failed fetch\<close>

text \<open>
  C1. The claim has the handler answer a failed fetch with status 500 and the error's
  message, and stop. The code does not: on a GET request that does not hit the cache and
  whose upstream GET, or the reading of its body, fails with \<open>e\<close>, the process ends
  inside the client with \<open>e\<close> as its fatal line. The handler never returns; the response
  is as it was handed in, with no status and no body; nothing is sent to the cache.
\<close>

theorem fetch_failure_gives_no_response:
  assumes "Method request = ''GET''"
    and "redis_Get w (cacheKey (config env) (time_Now w)) = (v, Some ce)"
    and "http_Get w (api_url (WUndergroundKey (config env)) ''astronomy''
                       (WUndergroundLocation (config env))) = Inl e
         \<or> http_Get w (api_url (WUndergroundKey (config env)) ''astronomy''
                          (WUndergroundLocation (config env))) = Inr (Inl e)"
  shows "(\<exists>w'. handleSunPhase lib env request (newResponse, w) =
                 Exit (Fatal_error e) (newResponse, w')
               \<and> redis_writes w' = redis_writes w \<and> redis_data w' = redis_data w)
       \<and> status newResponse = None \<and> body newResponse = []
       \<and> (\<forall>r s. handleSunPhase lib env request (newResponse, w) \<noteq> Return r s)"
proof -
  let ?w1 = "if ce \<noteq> redis_Nil then log_Println w ''Error reading cache: %s'' ce else w"
  let ?url = "api_url (WUndergroundKey (config env)) ''astronomy''
                (WUndergroundLocation (config env))"
  let ?w2 = "?w1\<lparr>requests := requests ?w1 @ [?url]\<rparr>"
  have g: "http_Get ?w1 ?url = Inl e \<or> http_Get ?w1 ?url = Inr (Inl e)"
    using assms(3) by simp
  have h: "handleSunPhase lib env request (newResponse, w) =
             Exit (Fatal_error e) (newResponse, ?w2)"
    unfolding handleSunPhase_no_hit [OF assms(1,2)] getWUAstronomy_fatal [OF g] by simp
  have k: "redis_writes ?w2 = redis_writes w" "redis_data ?w2 = redis_data w"
    by (simp_all add: log_Println_def)
  have x: "\<exists>w'. handleSunPhase lib env request (newResponse, w) =
                 Exit (Fatal_error e) (newResponse, w')
               \<and> redis_writes w' = redis_writes w \<and> redis_data w' = redis_data w"
    by (rule exI [of _ ?w2]) (simp only: h k simp_thms)
  have n: "\<forall>r s. handleSunPhase lib env request (newResponse, w) \<noteq> Return r s"
    unfolding h by simp
  have f: "status newResponse = None" "body newResponse = []"
    by (simp_all add: newResponse_def)
  show ?thesis
    by (intro conjI) (rule x f n)+
qed

theorem fetch_failure_gives_no_response_witness:
  "redis_Get (example_world\<lparr>http_Get := \<lambda>url. Inl (Err ''connection refused'')\<rparr>)
     (cacheKey (config example_env) (time_Now example_world)) = ([], Some redis_Nil)
   \<and> http_Get (example_world\<lparr>http_Get := \<lambda>url. Inl (Err ''connection refused'')\<rparr>)
       (api_url (WUndergroundKey (config example_env)) ''astronomy''
          (WUndergroundLocation (config example_env))) = Inl (Err ''connection refused'')
   \<and> (\<exists>w'. handleSunPhase example_lib example_env \<lparr>Method = ''GET''\<rparr>
               (newResponse,
                example_world\<lparr>http_Get := \<lambda>url. Inl (Err ''connection refused'')\<rparr>) =
             Exit (Fatal_error (Err ''connection refused'')) (newResponse, w')
           \<and> redis_writes w' = [] \<and> redis_data w' = Map.empty)
   \<and> (\<forall>r s. handleSunPhase example_lib example_env \<lparr>Method = ''GET''\<rparr>
               (newResponse,
                example_world\<lparr>http_Get := \<lambda>url. Inl (Err ''connection refused'')\<rparr>) \<noteq>
             Return r s)"
proof -
  let ?w = "example_world\<lparr>http_Get := \<lambda>url. Inl (Err ''connection refused'')\<rparr>"
  let ?url = "api_url (WUndergroundKey (config example_env)) ''astronomy''
                (WUndergroundLocation (config example_env))"
  have m: "Method \<lparr>Method = ''GET''\<rparr> = ''GET''" by simp
  have miss: "redis_Get ?w (cacheKey (config example_env) (time_Now ?w)) = ([], Some redis_Nil)"
    by (simp add: redis_Get_def example_world_def)
  have miss': "redis_Get ?w (cacheKey (config example_env) (time_Now example_world)) =
                 ([], Some redis_Nil)"
    using miss by simp
  have g: "http_Get ?w ?url = Inl (Err ''connection refused'')"
    by simp
  have g': "http_Get ?w ?url = Inl (Err ''connection refused'')
              \<or> http_Get ?w ?url = Inr (Inl (Err ''connection refused''))"
    using g by (rule disjI1)
  have e: "redis_writes ?w = []" "redis_data ?w = Map.empty"
    by (simp_all add: example_world_def)
  note t = fetch_failure_gives_no_response [OF m miss g', of example_lib, unfolded e]
  show ?thesis
    by (intro conjI) (rule miss' g conjunct1 [OF t] conjunct2 [OF conjunct2 [OF conjunct2 [OF t]]])+
qed

text \<open>
  Behind the client's exit the handler has a second defect, which the program as it
  stands does not reach (\<open>getWUAstronomy_no_error\<close>): the branch for an error returned by
  the client writes status 500 and the error document and, having no return, goes on to
  serialize, cache and send the record of zeros.
\<close>

lemma handleSunPhase_fetched_error:
  assumes "jsonapi_MarshalPayload lib
             \<lparr>ResponseID = key, SunriseM = 0, SunriseH = 0, SunsetM = 0, SunsetH = 0\<rparr> = Inr p"
    and "redis_Set_fault w = None"
  shows "handleSunPhase_fetched lib key (zero_WUAstronomy, Some e) (newResponse, w) =
           Return ()
           (\<lparr>Header = [''Content-Type'' \<mapsto> jsonapi_MediaType], status = Some 500,
             sent = Map.empty,
             body = jsonapi_MarshalErrors lib
                      [\<lparr>Title = ''Internal Server Error'', Detail = Error lib e,
                        Status = ''500'', Code = []\<rparr>] @ p\<rparr>,
            w\<lparr>redis_writes := redis_writes w @ [(key, p, 168 * time_Hour)],
              redis_data := (redis_data w)(key \<mapsto> (p, 168 * time_Hour))\<rparr>)"
proof -
  have z: "responseObj key zero_WUAstronomy =
           \<lparr>ResponseID = key, SunriseM = 0, SunriseH = 0, SunsetM = 0, SunsetH = 0\<rparr>"
    by (rule responseObj_zero) simp
  show ?thesis
    using assms
    by (simp add: handleSunPhase_fetched_def z makeErrorResponse_new makeErrorObject_500
        redis_Set_ok Header_Set_def Write_def Let_def)
qed

subsection \<open>Startup\<close>

text \<open>
  C7, amended. Provided \<open>REDIS_DB\<close> is unset (or empty) or parses as an integer:
  \<open>collectConfig\<close> ends the process when one of \<open>REDIS_ADDR\<close>, \<open>WU_KEY\<close>, \<open>WU_LOCATION\<close>
  is unset or empty, with the single line \<open>Environment variables missing: [...]\<close> that
  lists all the missing names, separated by spaces, in the order \<open>REDIS_ADDR\<close>, \<open>WU_KEY\<close>,
  \<open>WU_LOCATION\<close>, and \<open>main\<close> ends there, before it serves; with all three non-empty it
  returns the configuration read from the environment, with the defaults for the port,
  the database and the prefix. When \<open>REDIS_DB\<close> is set and does not parse as an integer,
  \<open>collectConfig\<close>, and \<open>main\<close> with it, ends the process at that check with the line
  \<open>Error parsing REDIS_DB\<close> and the error of the parse, whether or not the required
  settings are there.
\<close>

theorem collectConfig_missing_settings:
  assumes "missing = filter (\<lambda>name. getenv name = []) [''REDIS_ADDR'', ''WU_KEY'', ''WU_LOCATION'']"
  shows "(getenv ''REDIS_DB'' = [] \<or> snd (Atoi (getenv ''REDIS_DB'')) = None \<longrightarrow>
            collectConfig getenv =
              (if missing \<noteq> []
               then Inl (Fatal_string
                      (''Environment variables missing: ['' @ join '' '' missing @ '']''))
               else Inr \<lparr>HTTPPort = (if getenv ''HTTP_PORT'' = [] then '':8080''
                                      else '':'' @ getenv ''HTTP_PORT''),
                         RedisAddr = getenv ''REDIS_ADDR'',
                         RedisDB = (if getenv ''REDIS_DB'' = [] then 0
                                    else fst (Atoi (getenv ''REDIS_DB''))),
                         RedisPassword = getenv ''REDIS_PASSWORD'',
                         RedisPrefix = (if getenv ''REDIS_PREFIX'' = [] then ''ph:''
                                        else getenv ''REDIS_PREFIX''),
                         WUndergroundKey = getenv ''WU_KEY'',
                         WUndergroundLocation = getenv ''WU_LOCATION''\<rparr>)
            \<and> (missing \<noteq> [] \<longrightarrow>
                 main getenv ping =
                   Inl (Fatal_string
                          (''Environment variables missing: ['' @ join '' '' missing @ '']''))))
       \<and> (\<forall>err. getenv ''REDIS_DB'' \<noteq> [] \<and> snd (Atoi (getenv ''REDIS_DB'')) = Some err \<longrightarrow>
              collectConfig getenv = Inl (Fatalf ''Error parsing REDIS_DB'' err)
              \<and> main getenv ping = Inl (Fatalf ''Error parsing REDIS_DB'' err))"
proof -
  have good: "collectConfig getenv =
              (if missing \<noteq> []
               then Inl (Fatal_string
                      (''Environment variables missing: ['' @ join '' '' missing @ '']''))
               else Inr \<lparr>HTTPPort = (if getenv ''HTTP_PORT'' = [] then '':8080''
                                      else '':'' @ getenv ''HTTP_PORT''),
                         RedisAddr = getenv ''REDIS_ADDR'',
                         RedisDB = (if getenv ''REDIS_DB'' = [] then 0
                                    else fst (Atoi (getenv ''REDIS_DB''))),
                         RedisPassword = getenv ''REDIS_PASSWORD'',
                         RedisPrefix = (if getenv ''REDIS_PREFIX'' = [] then ''ph:''
                                        else getenv ''REDIS_PREFIX''),
                         WUndergroundKey = getenv ''WU_KEY'',
                         WUndergroundLocation = getenv ''WU_LOCATION''\<rparr>)"
    if db: "getenv ''REDIS_DB'' = [] \<or> snd (Atoi (getenv ''REDIS_DB'')) = None"
  proof -
    have p: "panicOnError (snd (if getenv ''REDIS_DB'' = [] then (0, None)
                                else Atoi (getenv ''REDIS_DB''))) ''Error parsing REDIS_DB'' = None"
      using db by (auto simp: panicOnError_def)
    show ?thesis
      unfolding collectConfig_def Let_def p missing_message assms
      by (cases "getenv ''REDIS_ADDR'' = []"; cases "getenv ''WU_KEY'' = []";
          cases "getenv ''WU_LOCATION'' = []") simp_all
  qed
  have good_main: "main getenv ping =
                   Inl (Fatal_string
                          (''Environment variables missing: ['' @ join '' '' missing @ '']''))"
    if "getenv ''REDIS_DB'' = [] \<or> snd (Atoi (getenv ''REDIS_DB'')) = None" "missing \<noteq> []"
    unfolding main_def good [OF that(1)] using that(2) by simp
  have bad: "collectConfig getenv = Inl (Fatalf ''Error parsing REDIS_DB'' err)"
    if "getenv ''REDIS_DB'' \<noteq> []" "snd (Atoi (getenv ''REDIS_DB'')) = Some err" for err
    using that by (simp add: collectConfig_def Let_def panicOnError_def)
  have bad_main: "main getenv ping = Inl (Fatalf ''Error parsing REDIS_DB'' err)"
    if "getenv ''REDIS_DB'' \<noteq> []" "snd (Atoi (getenv ''REDIS_DB'')) = Some err" for err
    unfolding main_def bad [OF that] by simp
  show ?thesis
    using good good_main bad bad_main by blast
qed

theorem collectConfig_missing_settings_witness:
  "snd (Atoi ''3'') = None
   \<and> collectConfig ((\<lambda>name. [])(''REDIS_DB'' := ''3'')) =
       Inl (Fatal_string ''Environment variables missing: [REDIS_ADDR WU_KEY WU_LOCATION]'')
   \<and> main ((\<lambda>name. [])(''REDIS_DB'' := ''3'')) (\<lambda>c. None) =
       Inl (Fatal_string ''Environment variables missing: [REDIS_ADDR WU_KEY WU_LOCATION]'')
   \<and> snd (Atoi ''abc'') = Some (NumError ''Atoi'' ''abc'' ErrSyntax)
   \<and> collectConfig ((\<lambda>name. [])(''REDIS_DB'' := ''abc'')) =
       Inl (Fatalf ''Error parsing REDIS_DB'' (NumError ''Atoi'' ''abc'' ErrSyntax))
   \<and> main ((\<lambda>name. [])(''REDIS_DB'' := ''abc'')) (\<lambda>c. None) =
       Inl (Fatalf ''Error parsing REDIS_DB'' (NumError ''Atoi'' ''abc'' ErrSyntax))"
proof -
  have a: "snd (Atoi ''3'') = None"
    by (simp add: Atoi_def digit_val_def maxUint64_def)
  have b: "snd (Atoi ''abc'') = Some (NumError ''Atoi'' ''abc'' ErrSyntax)"
    by (simp add: Atoi_def digit_val_def)
  have m3: "[''REDIS_ADDR'', ''WU_KEY'', ''WU_LOCATION''] =
            filter (\<lambda>name. ((\<lambda>name. [])(''REDIS_DB'' := ''3'')) name = [])
              [''REDIS_ADDR'', ''WU_KEY'', ''WU_LOCATION'']"
    by simp
  have mx: "[''REDIS_ADDR'', ''WU_KEY'', ''WU_LOCATION''] =
            filter (\<lambda>name. ((\<lambda>name. [])(''REDIS_DB'' := ''abc'')) name = [])
              [''REDIS_ADDR'', ''WU_KEY'', ''WU_LOCATION'']"
    by simp
  note t3 = conjunct1 [OF collectConfig_missing_settings [OF m3, of "\<lambda>c. None"]]
  note tx = conjunct2 [OF collectConfig_missing_settings [OF mx, of "\<lambda>c. None"]]
  have c3: "collectConfig ((\<lambda>name. [])(''REDIS_DB'' := ''3'')) =
       Inl (Fatal_string ''Environment variables missing: [REDIS_ADDR WU_KEY WU_LOCATION]'')
     \<and> main ((\<lambda>name. [])(''REDIS_DB'' := ''3'')) (\<lambda>c. None) =
       Inl (Fatal_string ''Environment variables missing: [REDIS_ADDR WU_KEY WU_LOCATION]'')"
    using t3 a by (simp add: fun_upd_def)
  have cx: "collectConfig ((\<lambda>name. [])(''REDIS_DB'' := ''abc'')) =
       Inl (Fatalf ''Error parsing REDIS_DB'' (NumError ''Atoi'' ''abc'' ErrSyntax))
     \<and> main ((\<lambda>name. [])(''REDIS_DB'' := ''abc'')) (\<lambda>c. None) =
       Inl (Fatalf ''Error parsing REDIS_DB'' (NumError ''Atoi'' ''abc'' ErrSyntax))"
    using tx b by (simp add: fun_upd_def)
  show ?thesis
    using a b c3 cx by (intro conjI) (erule conjunct1 conjunct2 | assumption)+
qed

text \<open>
  As stated, without the proviso, the claim fails: with the three required variables set
  and \<open>REDIS_DB\<close> set to \<open>abc\<close>, \<open>collectConfig\<close> does not return a configuration; the
  process ends at the check of \<open>REDIS_DB\<close>.
\<close>

theorem collectConfig_present_counterexample:
  "(example_getenv(''REDIS_DB'' := ''abc'')) ''REDIS_ADDR'' = ''localhost:6379''
   \<and> (example_getenv(''REDIS_DB'' := ''abc'')) ''WU_KEY'' = ''k''
   \<and> (example_getenv(''REDIS_DB'' := ''abc'')) ''WU_LOCATION'' = ''l''
   \<and> collectConfig (example_getenv(''REDIS_DB'' := ''abc'')) =
       Inl (Fatalf ''Error parsing REDIS_DB'' (NumError ''Atoi'' ''abc'' ErrSyntax))"
  by (simp add: example_getenv_def collectConfig_def Atoi_def digit_val_def panicOnError_def)

end
